theory Spec2Isabelle
  imports Main
begin

section \<open>Python string primitives\<close>

text \<open>
  The server is Python 2 code working on byte strings. A byte string is a \<open>string\<close>
  (a list of characters); the handful of \<open>str\<close> methods the server calls are written out
  below, each with the behaviour of the Python method it stands for.
\<close>

definition CR :: char where
  "CR = CHR 0x0D"

definition LF :: char where
  "LF = CHR 0x0A"

definition CRLF :: string where
  "CRLF = [CR, LF]"

definition BACKSLASH :: char where
  "BACKSLASH = CHR 0x5C"

definition DQUOTE :: char where
  "DQUOTE = CHR 0x22"

text \<open>\<open>s.startswith(p)\<close>, which is also the slice test \<open>s[0:len(p)] == p\<close>.\<close>

definition startswith :: "string \<Rightarrow> string \<Rightarrow> bool" where
  "startswith s p = (take (length p) s = p)"

text \<open>\<open>s.endswith(p)\<close>.\<close>

definition endswith :: "string \<Rightarrow> string \<Rightarrow> bool" where
  "endswith s p = (length p \<le> length s \<and> drop (length s - length p) s = p)"

text \<open>
  \<open>s.replace(old, new)\<close>: the occurrences of \<open>old\<close> are found from left to right and do
  not overlap. With an empty \<open>old\<close> Python puts \<open>new\<close> before every character and at the
  end.
\<close>

function replace_str :: "string \<Rightarrow> string \<Rightarrow> string \<Rightarrow> string" where
  "replace_str old new [] = (if old = [] then new else [])"
| "replace_str old new (c # cs) =
     (if old = [] then new @ c # replace_str old new cs
      else if startswith (c # cs) old
           then new @ replace_str old new (drop (length old) (c # cs))
           else c # replace_str old new cs)"
  by pat_completeness auto
termination
  by (relation "measure (\<lambda>(old, new, s). length s)") (auto simp: neq_Nil_conv)

text \<open>\<open>s.split(c)\<close> for a one-character separator: never empty, one more field than separators.\<close>

fun split_chr :: "char \<Rightarrow> string \<Rightarrow> string list" where
  "split_chr c [] = [[]]"
| "split_chr c (x # xs) =
     (if x = c then [] # split_chr c xs
      else (case split_chr c xs of
              [] \<Rightarrow> [[x]]
            | w # ws \<Rightarrow> (x # w) # ws))"

text \<open>\<open>sep.join(xs)\<close>.\<close>

fun join_str :: "string \<Rightarrow> string list \<Rightarrow> string" where
  "join_str sep [] = []"
| "join_str sep [x] = x"
| "join_str sep (x # y # ys) = x @ sep @ join_str sep (y # ys)"

text \<open>\<open>sub in s\<close> for strings: \<open>sub\<close> occurs somewhere in \<open>s\<close>.\<close>

fun contains :: "string \<Rightarrow> string \<Rightarrow> bool" where
  "contains [] sub = (sub = [])"
| "contains (c # cs) sub = (startswith (c # cs) sub \<or> contains cs sub)"

text \<open>\<open>s.upper()\<close> and \<open>s.lower()\<close> on byte strings: the ASCII letters change case.\<close>

definition upper_chr :: "char \<Rightarrow> char" where
  "upper_chr c =
     (if (97::nat) \<le> of_char c \<and> of_char c \<le> (122::nat)
      then char_of (of_char c - (32::nat)) else c)"

definition lower_chr :: "char \<Rightarrow> char" where
  "lower_chr c =
     (if (65::nat) \<le> of_char c \<and> of_char c \<le> (90::nat)
      then char_of (of_char c + (32::nat)) else c)"

definition upper :: "string \<Rightarrow> string" where
  "upper s = map upper_chr s"

definition lower :: "string \<Rightarrow> string" where
  "lower s = map lower_chr s"

text \<open>
  \<open>int(s)\<close> on a byte string, as CPython 2 reads a base 10 literal: white space, an
  optional sign, white space again, at least one decimal digit, white space; anything else
  raises \<open>ValueError\<close>, which is \<open>None\<close> here. The result is an unbounded integer.
\<close>

definition is_space :: "char \<Rightarrow> bool" where
  "is_space c = (c \<in> {CHR '' '', CHR 0x09, CHR 0x0A, CHR 0x0B, CHR 0x0C, CHR 0x0D})"

definition is_digit :: "char \<Rightarrow> bool" where
  "is_digit c = ((48::nat) \<le> of_char c \<and> of_char c \<le> (57::nat))"

definition digit_val :: "char \<Rightarrow> int" where
  "digit_val c = int (of_char c) - 48"

definition digits_val :: "string \<Rightarrow> int" where
  "digits_val ds = foldl (\<lambda>acc d. 10 * acc + digit_val d) 0 ds"

text \<open>The digits at the front of a string, which only white space may follow.\<close>

definition unsigned_int :: "string \<Rightarrow> int option" where
  "unsigned_int t =
     (let ds = takeWhile is_digit t; rest = dropWhile is_digit t
      in if ds \<noteq> [] \<and> list_all is_space rest then Some (digits_val ds) else None)"

definition py_int :: "string \<Rightarrow> int option" where
  "py_int s =
     (case dropWhile is_space s of
        [] \<Rightarrow> None
      | c # cs \<Rightarrow>
          if c = CHR ''-'' then map_option uminus (unsigned_int (dropWhile is_space cs))
          else if c = CHR ''+'' then unsigned_int (dropWhile is_space cs)
          else unsigned_int (c # cs))"

section \<open>The host\<close>

text \<open>
  The server runs on a POSIX host: \<open>os.sep\<close> is \<open>/\<close>, \<open>os.linesep\<close> is the line feed and
  \<open>os.path\<close> is \<open>posixpath\<close>. The three \<open>posixpath\<close> functions the virtual file system
  calls are written out as the library defines them.
\<close>

definition os_sep :: string where
  "os_sep = ''/''"

definition os_linesep :: string where
  "os_linesep = [LF]"

text \<open>\<open>os.path.isabs\<close>.\<close>

definition isabs :: "string \<Rightarrow> bool" where
  "isabs p = startswith p ''/''"

text \<open>\<open>os.path.join(a, b)\<close>: an absolute \<open>b\<close> discards \<open>a\<close>.\<close>

definition path_join :: "string \<Rightarrow> string \<Rightarrow> string" where
  "path_join a b =
     (if startswith b ''/'' then b
      else if a = [] \<or> endswith a ''/'' then a @ b
      else a @ ''/'' @ b)"

text \<open>
  \<open>os.path.normpath\<close>. The loop over the components keeps a stack \<open>new_comps\<close>, here a
  list whose last element is the top; \<open>initial_slashes\<close> is 0, 1 or 2 (exactly two leading
  slashes are kept, three or more count as one).
\<close>

definition initial_slashes :: "string \<Rightarrow> nat" where
  "initial_slashes path =
     (if startswith path ''/''
      then (if startswith path ''//'' \<and> \<not> startswith path ''///'' then 2 else 1)
      else 0)"

definition norm_step :: "nat \<Rightarrow> string list \<Rightarrow> string \<Rightarrow> string list" where
  "norm_step init new_comps cmp =
     (if cmp = [] \<or> cmp = ''.'' then new_comps
      else if cmp \<noteq> ''..'' \<or> (init = 0 \<and> new_comps = [])
              \<or> (new_comps \<noteq> [] \<and> last new_comps = ''..'')
           then new_comps @ [cmp]
      else if new_comps \<noteq> [] then butlast new_comps
      else new_comps)"

definition normpath :: "string \<Rightarrow> string" where
  "normpath path =
     (if path = [] then ''.''
      else let init = initial_slashes path;
               comps = foldl (norm_step init) [] (split_chr CHR ''/'' path);
               p = replicate init CHR ''/'' @ join_str ''/'' comps
           in (if p = [] then ''.'' else p))"

text \<open>
  What the host does when asked is not decided by the server's code: the file system, the
  authorizer's table and the sockets are read through this record. A failing operating
  system call carries the message \<open>_strerror\<close> would render. \<open>format_mlsx\<close> renders what
  \<open>lstat\<close> says about each name and is read from the host with it. The exceptions are
  those the modelled handlers can let escape.
\<close>

datatype py_exn = IndexError | NameError string | AttributeError | TypeError
  | OSError string | Other_exn string

datatype send_result = Sent nat | Socket_error string

datatype connect_result = Connect_started | Connect_socket_error | Connect_raised py_exn

record host =
  realpath :: "string \<Rightarrow> string"
  isdir :: "string \<Rightarrow> bool"
  listdir :: "string \<Rightarrow> string + string list"
  format_mlsx :: "string \<Rightarrow> string list \<Rightarrow> string"
  r_perm :: "string \<Rightarrow> string \<Rightarrow> bool"
  open_rb :: "string \<Rightarrow> string + string"
  getsize :: "string \<Rightarrow> string + nat"
  seek_error :: "string \<Rightarrow> int \<Rightarrow> string option"
  sock_send :: "string \<Rightarrow> send_result"
  sock_connect :: "string \<Rightarrow> int \<Rightarrow> connect_result"

section \<open>AbstractedFS\<close>

text \<open>
  The per-session virtual file system: \<open>root\<close> is the home directory of the user on the host,
  \<open>cwd\<close> the working directory in the client's name space, \<open>rnfr\<close> the pending source of a
  rename. \<open>root\<close> is \<open>None\<close> in Python between the construction of the session and the
  login; the dispatcher lets no command that reads it through before \<open>PASS\<close> has stored the
  home directory, so the record holds the string.
\<close>

record abstracted_fs =
  root :: string
  cwd :: string
  rnfr :: "string option"

text \<open>The loop of \<open>ftpnorm\<close> that drops a leading slash while the path starts with two.\<close>

fun strip_unc :: "string \<Rightarrow> string" where
  "strip_unc (a # b # cs) =
     (if a = CHR ''/'' \<and> b = CHR ''/'' then strip_unc (b # cs) else a # b # cs)"
| "strip_unc p = p"

definition ftpnorm :: "abstracted_fs \<Rightarrow> string \<Rightarrow> string" where
  "ftpnorm fs ftppath =
     (let p = (if isabs ftppath then normpath ftppath
               else normpath (path_join (cwd fs) ftppath));
          p = replace_str [BACKSLASH] ''/'' p;
          p = strip_unc p
      in if \<not> isabs p then ''/'' else p)"

definition ftp2fs :: "abstracted_fs \<Rightarrow> string \<Rightarrow> string" where
  "ftp2fs fs ftppath =
     (if normpath (root fs) = os_sep then normpath (ftpnorm fs ftppath)
      else let p = drop 1 (ftpnorm fs ftppath)
           in normpath (path_join (root fs) p))"

text \<open>
  \<open>validpath\<close>, statement by statement: \<open>root\<close> and \<open>path\<close> are the local variables, the
  two tests on \<open>self.root\<close> and \<open>path\<close> follow the source.
\<close>

definition validpath :: "host \<Rightarrow> abstracted_fs \<Rightarrow> string \<Rightarrow> bool" where
  "validpath h fs path =
     (let root0 = realpath h (root fs);
          path0 = realpath h path;
          root1 = (if \<not> endswith (root fs) os_sep then root fs @ os_sep else root0);
          path1 = (if \<not> endswith path0 os_sep then path0 @ os_sep else path0)
      in take (length root1) path1 = root1)"

definition fs2ftp :: "host \<Rightarrow> abstracted_fs \<Rightarrow> string \<Rightarrow> string" where
  "fs2ftp h fs fspath =
     (let p = (if isabs fspath then normpath fspath
               else normpath (path_join (root fs) fspath))
      in if \<not> validpath h fs p then ''/''
         else let p = replace_str os_sep ''/'' p;
                  p = drop (length (root fs)) p
              in if \<not> startswith p ''/'' then ''/'' @ p else p)"

text \<open>
  The containment predicate as the specification words it: resolve the symbolic links of
  both the root and the path, give each its trailing separator, and compare.
\<close>

definition validpath_spec :: "host \<Rightarrow> abstracted_fs \<Rightarrow> string \<Rightarrow> bool" where
  "validpath_spec h fs path =
     startswith (realpath h path @ os_sep) (realpath h (root fs) @ os_sep)"

section \<open>FileProducer and DTPHandler\<close>

text \<open>
  An open file: its bytes, the position of the next read or write, and whether it has been
  closed. \<open>read\<close> returns at most \<open>n\<close> bytes from the position; \<open>write\<close> puts the bytes
  at the position, over what is there.
\<close>

record file_obj =
  content :: string
  pos :: nat
  closed :: bool

definition file_read :: "nat \<Rightarrow> file_obj \<Rightarrow> string \<times> file_obj" where
  "file_read n f =
     (let d = take n (drop (pos f) (content f))
      in (d, f\<lparr>pos := pos f + length d\<rparr>))"

definition file_write :: "string \<Rightarrow> file_obj \<Rightarrow> file_obj" where
  "file_write d f =
     (let c = content f @ replicate (pos f - length (content f)) (CHR 0x00)
      in f\<lparr>content := take (pos f) c @ d @ drop (pos f + length d) c,
            pos := pos f + length d\<rparr>)"

definition file_close :: "file_obj \<Rightarrow> file_obj" where
  "file_close f = f\<lparr>closed := True\<rparr>"

text \<open>
  The \<open>data_wrapper\<close> lambdas of the source: the outbound one of \<open>FileProducer\<close>, the
  inbound one of \<open>enable_receiving\<close>, and the identity both use for a binary transfer.
\<close>

datatype data_wrapper = Linesep_to_CRLF | CRLF_to_linesep | Identity

fun apply_wrapper :: "data_wrapper \<Rightarrow> string \<Rightarrow> string" where
  "apply_wrapper Linesep_to_CRLF x = replace_str os_linesep CRLF x"
| "apply_wrapper CRLF_to_linesep x = replace_str CRLF os_linesep x"
| "apply_wrapper Identity x = x"

record file_producer =
  p_done :: bool
  p_file :: file_obj
  p_wrapper :: data_wrapper

definition out_buffer_size :: nat where
  "out_buffer_size = 65536"

text \<open>\<open>FileProducer.__init__\<close>.\<close>

definition FileProducer :: "file_obj \<Rightarrow> string \<Rightarrow> file_producer" where
  "FileProducer f type =
     \<lparr>p_done = False, p_file = f,
      p_wrapper = (if type = ''a'' then Linesep_to_CRLF else Identity)\<rparr>"

definition producer_close :: "file_producer \<Rightarrow> file_producer" where
  "producer_close p =
     (if \<not> closed (p_file p) then p\<lparr>p_file := file_close (p_file p)\<rparr> else p)"

text \<open>
  \<open>FileProducer.more\<close>: the next chunk, the empty string once the producer is done, and
  \<open>None\<close> (the method falls off its end) at the call that finds the file exhausted.
\<close>

definition more_data :: "file_producer \<Rightarrow> string option \<times> file_producer" where
  "more_data p =
     (if p_done p then (Some [], p)
      else let (raw, f) = file_read out_buffer_size (p_file p);
               d = apply_wrapper (p_wrapper p) raw;
               p = p\<lparr>p_file := f\<rparr>
           in if d = [] then (None, producer_close (p\<lparr>p_done := True\<rparr>))
              else (Some d, p))"

text \<open>An entry of \<open>producer_fifo\<close>: a string, a producer, or the \<open>None\<close> that ends the stream.\<close>

datatype fifo_item = Data string | Producer file_producer | End_mark

record dtp =
  producer_fifo :: "fifo_item list"
  dtp_file_obj :: "file_obj option"
  receive :: bool
  transfer_finished :: bool
  tot_bytes_sent :: nat
  tot_bytes_received :: nat
  dtp_wrapper :: "data_wrapper option"
  connected :: bool

definition ac_in_buffer_size :: nat where
  "ac_in_buffer_size = 8192"

definition ac_out_buffer_size :: nat where
  "ac_out_buffer_size = 8192"

text \<open>\<open>DTPHandler.__init__\<close> on a connected socket.\<close>

definition DTPHandler :: dtp where
  "DTPHandler =
     \<lparr>producer_fifo = [], dtp_file_obj = None, receive = False, transfer_finished = False,
      tot_bytes_sent = 0, tot_bytes_received = 0, dtp_wrapper = None, connected = True\<rparr>"

definition enable_receiving :: "string \<Rightarrow> dtp \<Rightarrow> dtp" where
  "enable_receiving type d =
     d\<lparr>dtp_wrapper := Some (if type = ''a'' then CRLF_to_linesep else Identity),
       receive := True\<rparr>"

definition get_transmitted_bytes :: "dtp \<Rightarrow> nat" where
  "get_transmitted_bytes d = tot_bytes_sent d + tot_bytes_received d"

definition transfer_in_progress :: "dtp \<Rightarrow> bool" where
  "transfer_in_progress d = (get_transmitted_bytes d \<noteq> 0)"

text \<open>
  \<open>DTPHandler.handle_read\<close> for a chunk that \<open>recv\<close> returned: the empty chunk is the end
  of the stream, any other chunk goes through the wrapper into the file. The channel is
  readable only after \<open>enable_receiving\<close>, which the command handlers call right after
  storing the file; without a file or a wrapper the attribute access fails.
\<close>

definition dtp_handle_read :: "string \<Rightarrow> dtp \<Rightarrow> py_exn + dtp" where
  "dtp_handle_read chunk d =
     (let d = d\<lparr>tot_bytes_received := tot_bytes_received d + length chunk\<rparr>
      in if chunk = [] then Inr (d\<lparr>transfer_finished := True\<rparr>)
         else (case (dtp_file_obj d, dtp_wrapper d) of
                 (Some f, Some w) \<Rightarrow>
                   Inr (d\<lparr>dtp_file_obj := Some (file_write (apply_wrapper w chunk) f)\<rparr>)
               | _ \<Rightarrow> Inl AttributeError))"

text \<open>The chunks arriving one after the other, until one raises.\<close>

fun receive_chunks :: "string list \<Rightarrow> dtp \<Rightarrow> py_exn + dtp" where
  "receive_chunks [] d = Inr d"
| "receive_chunks (c # cs) d =
     (case dtp_handle_read c d of Inl e \<Rightarrow> Inl e | Inr d' \<Rightarrow> receive_chunks cs d')"

text \<open>
  Everything a producer yields, call after call of \<open>more\<close>, until it returns \<open>None\<close>: the
  byte stream a completed \<open>RETR\<close> sends.
\<close>

function drain :: "file_producer \<Rightarrow> string" where
  "drain p =
     (if p_done p then []
      else (case more_data p of
              (None, p') \<Rightarrow> []
            | (Some d, p') \<Rightarrow> d @ drain p'))"
  by pat_completeness auto
termination
proof (relation "measure (\<lambda>p. length (content (p_file p)) - pos (p_file p))")
  show "wf (measure (\<lambda>p. length (content (p_file p)) - pos (p_file p)))"
    by simp
next
  fix p :: file_producer and r p' d
  assume nd: "\<not> p_done p" and m: "(r, p') = more_data p" and r: "r = Some d"
  define raw where "raw = take out_buffer_size (drop (pos (p_file p)) (content (p_file p)))"
  define q where "q = p\<lparr>p_file := (p_file p)\<lparr>pos := pos (p_file p) + length raw\<rparr>\<rparr>"
  have md: "more_data p =
      (if apply_wrapper (p_wrapper p) raw = [] then (None, producer_close (q\<lparr>p_done := True\<rparr>))
       else (Some (apply_wrapper (p_wrapper p) raw), q))"
    using nd by (simp add: more_data_def file_read_def raw_def q_def Let_def)
  have wr: "apply_wrapper (p_wrapper p) [] = []"
    by (cases "p_wrapper p") (simp_all add: os_linesep_def CRLF_def)
  have nz: "apply_wrapper (p_wrapper p) raw \<noteq> []" and pq: "p' = q"
    using m r md by (auto split: if_splits)
  have ne: "raw \<noteq> []"
    using nz wr by auto
  have p': "pos (p_file p') = pos (p_file p) + length raw"
    by (simp add: pq q_def)
  have c': "content (p_file p') = content (p_file p)"
    by (simp add: pq q_def)
  have lt: "pos (p_file p) < length (content (p_file p))"
    using ne by (auto simp: raw_def)
  have "0 < length raw"
    using ne by simp
  then have "length (content (p_file p)) - (pos (p_file p) + length raw)
      < length (content (p_file p)) - pos (p_file p)"
    using lt by arith
  then show "(p', p) \<in> measure (\<lambda>p. length (content (p_file p)) - pos (p_file p))"
    using p' c' by simp
qed

declare drain.simps [simp del]

section \<open>FTPHandler: the session\<close>

text \<open>
  What a session does to the outside is kept in order in its \<open>trace\<close>: the calls of
  \<open>push\<close> on the control channel with their data, the closing of the passive listener, of
  the data channel and of the control channel itself, the request to close the control
  channel once its output is flushed, and the connection attempt of an active data channel.
  The log sinks only print and are left out.
\<close>

datatype event =
    Push string
  | Close_data_server
  | Close_data_channel
  | Close_control
  | Close_when_done
  | Connect string int

text \<open>The listening socket of \<open>PassiveDTP\<close>, the only object \<open>data_server\<close> ever holds.\<close>

record passive_dtp =
  bound_port :: nat

text \<open>
  The payload of \<open>push_dtp_data\<close>; the constructor stands for its \<open>isproducer\<close> flag.
\<close>

datatype payload = Str string | Prod file_producer

text \<open>
  The session. Besides the attributes \<open>FTPHandler.__init__\<close> sets it holds what it inherits
  from \<open>async_chat\<close> and \<open>asyncore.dispatcher\<close>: the queue of the control channel
  (\<open>ctl_fifo\<close>, the \<open>producer_fifo\<close> of the session: strings, and \<open>None\<close> for the request to
  close), the flag \<open>connected\<close> (\<open>ctl_connected\<close>), and its socket, of which only the
  answer to \<open>send\<close> matters (\<open>socket_send\<close>).
\<close>

record session =
  fs :: abstracted_fs
  in_dtp_queue :: "(file_obj \<times> string) option"
  out_dtp_queue :: "(payload \<times> string) option"
  authenticated :: bool
  username :: string
  attempted_logins :: int
  current_type :: string
  restart_position :: int
  quit_pending :: bool
  data_server :: "passive_dtp option"
  data_channel :: "dtp option"
  remote_ip :: string
  in_buffer :: "string list"
  in_buffer_len :: nat
  ctl_fifo :: "string option list"
  ctl_connected :: bool
  socket_send :: "string \<Rightarrow> send_result"
  trace :: "event list"

text \<open>
  The overridable class attributes of \<open>FTPHandler\<close> that the modelled handlers read, the
  connection limit of the \<open>FTPServer\<close> instance and the size of the socket map of
  \<open>asyncore\<close>.
\<close>

record config =
  permit_foreign_addresses :: bool
  permit_privileged_ports :: bool
  max_cons :: nat
  socket_map_len :: nat

text \<open>
  A handler either returns, with the session as it left it, or lets an exception escape,
  with the session as it was when the exception was raised.
\<close>

type_synonym result = "(py_exn \<times> session) + session"

definition emit :: "event \<Rightarrow> session \<Rightarrow> session" where
  "emit e s = s\<lparr>trace := trace s @ [e]\<rparr>"

text \<open>
  \<open>async_chat.close_when_done\<close> on the control channel: the request to close is queued
  behind what is still to be sent.
\<close>

definition close_when_done :: "session \<Rightarrow> session" where
  "close_when_done s = emit Close_when_done (s\<lparr>ctl_fifo := ctl_fifo s @ [None]\<rparr>)"

definition on_dtp_close :: "session \<Rightarrow> session" where
  "on_dtp_close s =
     (let s = s\<lparr>data_channel := None\<rparr>
      in if quit_pending s then close_when_done s else s)"

text \<open>
  The methods of a \<open>DTPHandler\<close> of the session. They call back into the session, so they
  are functions of the session. \<open>DTPHandler.close\<close> closes the file and the producers the
  channel holds, closes the socket and calls \<open>on_dtp_close\<close>, which detaches the channel
  from the session.
\<close>

definition dtp_close :: "session \<Rightarrow> session" where
  "dtp_close s = on_dtp_close (emit Close_data_channel s)"

definition passive_close :: "session \<Rightarrow> session" where
  "passive_close s = emit Close_data_server s"

text \<open>
  \<open>FTPHandler.close\<close>, \<open>handle_close\<close> and \<open>handle_error\<close>. The attributes \<open>close\<close> deletes
  read \<open>None\<close> afterwards; closing the dispatcher clears \<open>connected\<close>.
\<close>

definition close :: "session \<Rightarrow> session" where
  "close s =
     (let s = (case data_server s of
                 Some srv \<Rightarrow> (passive_close s)\<lparr>data_server := None\<rparr>
               | None \<Rightarrow> s);
          s = (case data_channel s of
                 Some d \<Rightarrow> (dtp_close s)\<lparr>data_channel := None\<rparr>
               | None \<Rightarrow> s)
      in emit Close_control
           (s\<lparr>out_dtp_queue := None, in_dtp_queue := None, ctl_connected := False\<rparr>))"

definition handle_close :: "session \<Rightarrow> session" where
  "handle_close s = close s"

definition handle_error :: "session \<Rightarrow> session" where
  "handle_error s = close s"

text \<open>The slices \<open>data[i:i+n]\<close> for \<open>i\<close> in \<open>xrange(0, len(data), n)\<close>.\<close>

function chunks_of :: "nat \<Rightarrow> string \<Rightarrow> string list" where
  "chunks_of n xs = (if n = 0 \<or> xs = [] then [] else take n xs # chunks_of n (drop n xs))"
  by pat_completeness auto
termination
  by (relation "measure (\<lambda>(n, xs). length xs)") auto

declare chunks_of.simps [simp del]

text \<open>
  \<open>push\<close> and \<open>initiate_send\<close> of the control channel, which \<open>FTPHandler\<close> inherits from
  \<open>asynchat.async_chat\<close> (the standard library of Python 2.6 and 2.7; \<open>DTPHandler\<close> carries
  its own copy of the two methods, modelled below). On the control channel only strings and
  the request to close are queued. One call of \<open>initiate_send\<close> looks at the head of the
  queue: the request to close is removed and \<open>handle_close\<close> closes the session; a string
  is offered to the socket, at most \<open>ac_out_buffer_size\<close> bytes of it, and what the socket
  took is removed. A socket error closes the session. On a session that is no longer
  connected the call does nothing. So a reply pushed behind a pending request to close, or
  into a failing socket, closes the session in the middle of the handler that replies.
\<close>

definition ctl_out_buffer_size :: nat where
  "ctl_out_buffer_size = 4096"

definition ctl_initiate_send :: "session \<Rightarrow> session" where
  "ctl_initiate_send s =
     (case ctl_fifo s of
        [] \<Rightarrow> s
      | first # rest \<Rightarrow>
          if \<not> ctl_connected s then s
          else (case first of
              None \<Rightarrow> handle_close (s\<lparr>ctl_fifo := rest\<rparr>)
            | Some x \<Rightarrow>
                (let fifo = (if x = [] then rest else first # rest);
                     obs = ctl_out_buffer_size;
                     data = take obs x
                 in case socket_send s data of
                      Socket_error error \<Rightarrow> handle_error (s\<lparr>ctl_fifo := fifo\<rparr>)
                    | Sent n \<Rightarrow>
                        (let num_sent = min n (length data)
                         in if num_sent \<noteq> 0
                            then s\<lparr>ctl_fifo :=
                                   (if num_sent < length data \<or> obs < length x
                                    then Some (drop num_sent x) # rest
                                    else rest)\<rparr>
                            else s\<lparr>ctl_fifo := fifo\<rparr>))))"

definition push :: "string \<Rightarrow> session \<Rightarrow> session" where
  "push d s =
     (let s = emit (Push d) s;
          sabs = ctl_out_buffer_size;
          items = (if length d > sabs then chunks_of sabs d else [d])
      in ctl_initiate_send (s\<lparr>ctl_fifo := ctl_fifo s @ map Some items\<rparr>))"

text \<open>\<open>FTPHandler.respond\<close>.\<close>

definition respond :: "string \<Rightarrow> session \<Rightarrow> session" where
  "respond resp s = push (resp @ CRLF) s"

text \<open>The data \<open>push\<close> was called with on the control channel so far, oldest first.\<close>

fun pushed :: "event list \<Rightarrow> string list" where
  "pushed [] = []"
| "pushed (Push d # es) = d # pushed es"
| "pushed (e # es) = pushed es"

definition replies :: "session \<Rightarrow> string list" where
  "replies s = pushed (trace s)"

definition dtp_handle_close :: "session \<Rightarrow> session" where
  "dtp_handle_close s =
     (case data_channel s of
        None \<Rightarrow> s
      | Some d \<Rightarrow>
          let d = (if receive d then d\<lparr>transfer_finished := True\<rparr> else d);
              s = s\<lparr>data_channel := Some d\<rparr>;
              s = (if transfer_finished d then respond ''226 Transfer complete.'' s
                   else respond ''426 Connection closed; transfer aborted.'' s)
          in dtp_close s)"

text \<open>
  \<open>DTPHandler.handle_error\<close> for a socket error, whose text is the message of the error or
  \<open>Unknown connection error\<close>.
\<close>

definition dtp_handle_error :: "string \<Rightarrow> session \<Rightarrow> session" where
  "dtp_handle_error error s = dtp_close (respond (''426 '' @ error @ ''; transfer aborted.'') s)"

text \<open>
  \<open>DTPHandler.initiate_send\<close>. The loop runs again only after it has replaced a producer at
  the head of the queue by what \<open>more\<close> returned; every other path leaves it. The socket
  reports how many bytes it took, never more than it was given.
\<close>

function initiate_send :: "host \<Rightarrow> session \<Rightarrow> session" where
  "initiate_send h s =
     (case data_channel s of
        None \<Rightarrow> s
      | Some d \<Rightarrow>
          (case producer_fifo d of
             [] \<Rightarrow> s
           | first # rest \<Rightarrow>
               if \<not> connected d then s
               else (case first of
                   End_mark \<Rightarrow>
                     dtp_handle_close
                       (s\<lparr>data_channel :=
                            Some (d\<lparr>producer_fifo := rest, transfer_finished := True\<rparr>)\<rparr>)
                 | Producer p \<Rightarrow>
                     (case more_data p of
                        (None, p') \<Rightarrow>
                          initiate_send h
                            (s\<lparr>data_channel :=
                                 Some (d\<lparr>producer_fifo := End_mark # Producer p' # rest\<rparr>)\<rparr>)
                      | (Some x, p') \<Rightarrow>
                          initiate_send h
                            (s\<lparr>data_channel :=
                                 Some (d\<lparr>producer_fifo := Data x # Producer p' # rest\<rparr>)\<rparr>))
                 | Data x \<Rightarrow>
                     (let fifo = (if x = [] then rest else first # rest);
                          obs = ac_out_buffer_size;
                          data = take obs x
                      in case sock_send h data of
                           Socket_error error \<Rightarrow>
                             dtp_handle_error error
                               (s\<lparr>data_channel := Some (d\<lparr>producer_fifo := fifo\<rparr>)\<rparr>)
                         | Sent n \<Rightarrow>
                             (let num_sent = min n (length data)
                              in if num_sent \<noteq> 0
                                 then s\<lparr>data_channel := Some
                                        (d\<lparr>tot_bytes_sent := tot_bytes_sent d + num_sent,
                                           producer_fifo :=
                                             (if num_sent < length data \<or> obs < length x
                                              then Data (drop num_sent x) # rest
                                              else rest)\<rparr>)\<rparr>
                                 else s\<lparr>data_channel :=
                                        Some (d\<lparr>producer_fifo := fifo\<rparr>)\<rparr>)))))"
  by pat_completeness auto
termination
  by (relation "measure (\<lambda>(h, s).
        case data_channel s of
          None \<Rightarrow> 0
        | Some d \<Rightarrow> (case producer_fifo d of Producer p # rest \<Rightarrow> Suc 0 | _ \<Rightarrow> 0))") auto

declare initiate_send.simps [simp del]

text \<open>\<open>DTPHandler.push\<close>, \<open>push_with_producer\<close> and \<open>close_when_done\<close>.\<close>

definition dtp_push :: "host \<Rightarrow> string \<Rightarrow> session \<Rightarrow> session" where
  "dtp_push h data s =
     (case data_channel s of
        None \<Rightarrow> s
      | Some d \<Rightarrow>
          let sabs = ac_out_buffer_size;
              items = (if length data > sabs then map Data (chunks_of sabs data)
                       else [Data data])
          in initiate_send h
               (s\<lparr>data_channel := Some (d\<lparr>producer_fifo := producer_fifo d @ items\<rparr>)\<rparr>))"

definition dtp_push_with_producer :: "host \<Rightarrow> file_producer \<Rightarrow> session \<Rightarrow> session" where
  "dtp_push_with_producer h p s =
     (case data_channel s of
        None \<Rightarrow> s
      | Some d \<Rightarrow>
          initiate_send h
            (s\<lparr>data_channel :=
                 Some (d\<lparr>producer_fifo := producer_fifo d @ [Producer p]\<rparr>)\<rparr>))"

definition dtp_close_when_done :: "session \<Rightarrow> session" where
  "dtp_close_when_done s =
     (case data_channel s of
        None \<Rightarrow> s
      | Some d \<Rightarrow>
          s\<lparr>data_channel := Some (d\<lparr>producer_fifo := producer_fifo d @ [End_mark]\<rparr>)\<rparr>)"

text \<open>
  \<open>FTPHandler.push_dtp_data\<close>. When the reply 125 has closed the session the data channel
  is gone, and the call of its \<open>push\<close> raises \<open>AttributeError\<close>.
\<close>

definition push_dtp_data :: "host \<Rightarrow> payload \<Rightarrow> string \<Rightarrow> session \<Rightarrow> result" where
  "push_dtp_data h data log s =
     (case data_channel s of
        Some d \<Rightarrow>
          let s = respond ''125 Data connection already open. Transfer starting.'' s
          in (case data_channel s of
                None \<Rightarrow> Inl (AttributeError, s)
              | Some d0 \<Rightarrow>
                  let s = (case data of
                             Str x \<Rightarrow> dtp_push h x s
                           | Prod p \<Rightarrow> dtp_push_with_producer h p s)
                  in Inr (case data_channel s of
                            Some d' \<Rightarrow> dtp_close_when_done s
                          | None \<Rightarrow> s))
      | None \<Rightarrow>
          Inr ((respond ''150 File status okay. About to open data connection.'' s)
                 \<lparr>out_dtp_queue := Some (data, log)\<rparr>))"

text \<open>\<open>FTPHandler.flush_account\<close>.\<close>

definition flush_account :: "session \<Rightarrow> session" where
  "flush_account s =
     (let s = (case data_channel s of
                 Some d \<Rightarrow>
                   if \<not> transfer_in_progress d then (dtp_close s)\<lparr>data_channel := None\<rparr>
                   else s
               | None \<Rightarrow> s);
          s = (case data_server s of
                 Some srv \<Rightarrow> (passive_close s)\<lparr>data_server := None\<rparr>
               | None \<Rightarrow> s)
      in s\<lparr>fs := (fs s)\<lparr>rnfr := None\<rparr>,
           authenticated := False,
           username := [],
           attempted_logins := 0,
           current_type := ''a'',
           restart_position := 0,
           quit_pending := False,
           in_dtp_queue := None,
           out_dtp_queue := None\<rparr>)"

text \<open>\<open>FTPHandler.ftp_REIN\<close>.\<close>

definition ftp_REIN :: "session \<Rightarrow> string \<Rightarrow> session" where
  "ftp_REIN s line = respond ''230 Ready for new user.'' (flush_account s)"

text \<open>\<open>FTPHandler.ftp_USER\<close>.\<close>

definition ftp_USER :: "session \<Rightarrow> string \<Rightarrow> session" where
  "ftp_USER s line =
     (let line = (if lower line = ''anonymous'' then ''anonymous'' else line);
          s = (if \<not> authenticated s then respond ''331 Username ok, send password.'' s
               else respond ''331 Previous account information was flushed, send password.''
                      (flush_account s))
      in s\<lparr>username := line\<rparr>)"

text \<open>\<open>FTPHandler.ftp_ABOR\<close>; \<open>resp\<close> is the local variable of the source.\<close>

definition ftp_ABOR :: "session \<Rightarrow> string \<Rightarrow> session" where
  "ftp_ABOR s line =
     (if data_server s = None \<and> data_channel s = None
      then respond ''225 No transfer to abort.'' s
      else
        let (s, resp) =
              (case data_server s of
                 Some srv \<Rightarrow>
                   ((passive_close s)\<lparr>data_server := None\<rparr>,
                    ''225 ABOR command successful; data channel closed.'')
               | None \<Rightarrow> (s, []));
            (s, resp) =
              (case data_channel s of
                 Some d \<Rightarrow>
                   if transfer_in_progress d
                   then (respond ''426 Connection closed; transfer aborted.''
                           ((dtp_close s)\<lparr>data_channel := None\<rparr>),
                         ''226 ABOR command successful.'')
                   else ((dtp_close s)\<lparr>data_channel := None\<rparr>,
                         ''225 ABOR command successful; data channel closed.'')
               | None \<Rightarrow> (s, resp))
        in respond resp s)"

text \<open>The decimal rendering \<open>'%s' % n\<close> of an integer.\<close>

function str_nat :: "nat \<Rightarrow> string" where
  "str_nat n =
     (if n < 10 then [char_of (48 + n)]
      else str_nat (n div 10) @ [char_of (48 + n mod 10)])"
  by pat_completeness auto
termination
  by (relation "measure id") auto

declare str_nat.simps [simp del]

definition str_int :: "int \<Rightarrow> string" where
  "str_int i = (if i < 0 then ''-'' @ str_nat (nat (- i)) else str_nat (nat i))"

text \<open>
  \<open>ActiveDTP.__init__\<close>: the socket is created and asked to connect. A \<open>socket.error\<close> of
  \<open>connect\<close> is answered with 425; any other exception of \<open>connect\<close> leaves the
  constructor.
\<close>

definition ActiveDTP :: "host \<Rightarrow> string \<Rightarrow> int \<Rightarrow> session \<Rightarrow> result" where
  "ActiveDTP h ip port s =
     (let s = emit (Connect ip port) s
      in case sock_connect h ip port of
           Connect_started \<Rightarrow> Inr s
         | Connect_socket_error \<Rightarrow>
             Inr (respond (''425 Can't connect to '' @ ip @ '':'' @ str_int port @ ''.'') s)
         | Connect_raised e \<Rightarrow> Inl (e, s))"

text \<open>
  \<open>FTPHandler.ftp_PORT\<close>. \<open>line[4]\<close> and \<open>line[5]\<close> raise \<open>IndexError\<close> on a list that is
  too short, in the order in which the source evaluates them; the \<open>except\<close> clause catches
  the \<open>ValueError\<close> of \<open>int\<close> only.
\<close>

definition ftp_PORT :: "config \<Rightarrow> host \<Rightarrow> session \<Rightarrow> string \<Rightarrow> result" where
  "ftp_PORT cfg h s line =
     (let fields = split_chr CHR '','' line;
          ip = replace_str '','' ''.'' (join_str ''.'' (take 4 fields))
      in if length fields \<le> 4 then Inl (IndexError, s)
         else (case py_int (fields ! 4) of
                 None \<Rightarrow> Inr (respond ''501 Invalid PORT format.'' s)
               | Some p1 \<Rightarrow>
                   if length fields \<le> 5 then Inl (IndexError, s)
                   else (case py_int (fields ! 5) of
                           None \<Rightarrow> Inr (respond ''501 Invalid PORT format.'' s)
                         | Some p2 \<Rightarrow>
                             (let port = p1 * 256 + p2
                              in if \<not> permit_foreign_addresses cfg \<and> ip \<noteq> remote_ip s
                                 then Inr (respond ''501 Can't connect to a foreign address.'' s)
                                 else if \<not> permit_privileged_ports cfg \<and> port < 1024
                                 then Inr (respond
                                        ''501 Can't connect over a privileged port.'' s)
                                 else
                                   let s = (case data_server s of
                                              Some srv \<Rightarrow>
                                                (passive_close s)\<lparr>data_server := None\<rparr>
                                            | None \<Rightarrow> s);
                                       s = (case data_channel s of
                                              Some d \<Rightarrow>
                                                (dtp_close s)\<lparr>data_channel := None\<rparr>
                                            | None \<Rightarrow> s)
                                   in if max_cons cfg \<noteq> 0
                                         \<and> socket_map_len cfg \<ge> max_cons cfg
                                      then Inr (respond
                                        ''425 Too many connections. Can't open data channel.'' s)
                                      else ActiveDTP h ip port s))))"

text \<open>
  \<open>FTPHandler.ftp_RETR\<close>. When the authorizer denies the read, the message for the log is
  built first, from a format string without a conversion and one argument: the \<open>%\<close>
  operator raises \<open>TypeError\<close> and the reply that follows in the source is never reached.
  The seek follows the test of the offset against the size of the file; \<open>getsize\<close> may
  fail with an \<open>OSError\<close>, which neither \<open>except\<close> clause catches.
\<close>

definition ftp_RETR :: "host \<Rightarrow> session \<Rightarrow> string \<Rightarrow> result" where
  "ftp_RETR h s line =
     (let file = ftp2fs (fs s) line
      in if \<not> r_perm h (username s) file then Inl (TypeError, s)
         else (case open_rb h file of
                 Inl why \<Rightarrow> Inr (respond (''550 '' @ why @ ''.'') s)
               | Inr bytes \<Rightarrow>
                   (let fd = \<lparr>content = bytes, pos = 0, closed = False\<rparr>;
                        log = ''OK RETR '' @ DQUOTE # ftpnorm (fs s) line @ DQUOTE # ''. Download starting.''
                    in if restart_position s \<noteq> 0
                       then (case getsize h file of
                               Inl why \<Rightarrow> Inl (OSError why, s)
                             | Inr sz \<Rightarrow>
                                 if restart_position s > int sz
                                 then Inr (respond ''554 Invalid REST parameter''
                                             (s\<lparr>restart_position := 0\<rparr>))
                                 else (case seek_error h file (restart_position s) of
                                         Some why \<Rightarrow>
                                           Inr (respond (''554 '' @ why)
                                                  (s\<lparr>restart_position := 0\<rparr>))
                                       | None \<Rightarrow>
                                           push_dtp_data h
                                             (Prod (FileProducer
                                                (fd\<lparr>pos := nat (restart_position s)\<rparr>)
                                                (current_type s)))
                                             log (s\<lparr>restart_position := 0\<rparr>)))
                       else push_dtp_data h
                              (Prod (FileProducer fd (current_type s))) log s)))"

text \<open>
  \<open>FTPHandler.ftp_MLSD\<close>. The handler of the \<open>OSError\<close> of \<open>listdir\<close> calls \<open>_str\<close>, a
  name the module never defines: the call raises \<open>NameError\<close> inside the \<open>except\<close> clause.
\<close>

definition ftp_MLSD :: "host \<Rightarrow> session \<Rightarrow> string \<Rightarrow> result" where
  "ftp_MLSD h s line =
     (let line = (if line = [] then cwd (fs s) else line);
          path = ftp2fs (fs s) line;
          line = ftpnorm (fs s) line
      in if \<not> isdir h path then Inr (respond ''501 No such directory.'' s)
         else (case listdir h path of
                 Inl err \<Rightarrow> Inl (NameError ''_str'', s)
               | Inr listing \<Rightarrow>
                   push_dtp_data h (Str (format_mlsx h path listing))
                     (''OK MLSD '' @ DQUOTE # line @ DQUOTE # ''. Transfer starting.'') s))"

text \<open>
  The \<open>read\<close> of \<open>asyncore\<close> around every handler of an event: an exception that leaves
  the handler is given to \<open>handle_error\<close>, which closes the session.
\<close>

definition asyncore_read :: "result \<Rightarrow> session" where
  "asyncore_read r = (case r of Inl (e, s) \<Rightarrow> handle_error s | Inr s \<Rightarrow> s)"

definition session_closed :: "session \<Rightarrow> bool" where
  "session_closed s = (Close_control \<in> set (trace s))"

section \<open>FTPHandler: the dispatcher\<close>

text \<open>The keys of \<open>proto_cmds\<close> after the update with \<open>deprecated_cmds\<close>.\<close>

definition proto_cmds :: "string list" where
  "proto_cmds =
     [''ABOR'', ''ALLO'', ''APPE'', ''CDUP'', ''CWD'', ''DELE'', ''FEAT'', ''HELP'', ''LIST'',
      ''MDTM'', ''MLSD'', ''MLST'', ''MODE'', ''MKD'', ''NLST'', ''NOOP'', ''PASS'', ''PASV'',
      ''PORT'', ''PWD'', ''QUIT'', ''REIN'', ''REST'', ''RETR'', ''RMD'', ''RNFR'', ''RNTO'',
      ''SIZE'', ''STAT'', ''STOR'', ''STOU'', ''STRU'', ''SYST'', ''TYPE'', ''USER'',
      ''XCUP'', ''XCWD'', ''XMKD'', ''XPWD'', ''XRMD'']"

definition unauth_cmds :: "string list" where
  "unauth_cmds = [''FEAT'', ''HELP'', ''NOOP'', ''PASS'', ''QUIT'', ''STAT'', ''SYST'', ''USER'']"

definition arg_cmds :: "string list" where
  "arg_cmds =
     [''ALLO'', ''APPE'', ''DELE'', ''MDTM'', ''MODE'', ''MKD'', ''PORT'', ''REST'', ''RETR'',
      ''RMD'', ''RNFR'', ''RNTO'', ''SIZE'', ''STOR'', ''STRU'', ''TYPE'', ''USER'', ''XMKD'',
      ''XRMD'']"

definition unarg_cmds :: "string list" where
  "unarg_cmds =
     [''ABOR'', ''CDUP'', ''FEAT'', ''NOOP'', ''PASV'', ''PWD'', ''QUIT'', ''REIN'', ''SYST'',
      ''XCUP'', ''XPWD'']"

text \<open>The commands whose argument is checked against the root before the handler runs.\<close>

definition path_cmds :: "string list" where
  "path_cmds =
     [''APPE'', ''CWD'', ''DELE'', ''MDTM'', ''NLST'', ''MLSD'', ''MLST'', ''RETR'', ''RMD'',
      ''SIZE'', ''STOR'', ''XCWD'', ''XRMD'']"

text \<open>\<open>line.split(' ')[0].upper()\<close> and the argument after the first space.\<close>

definition cmd_of :: "string \<Rightarrow> string" where
  "cmd_of line = upper (case split_chr CHR '' '' line of [] \<Rightarrow> [] | w # ws \<Rightarrow> w)"

definition arg_of :: "string \<Rightarrow> string" where
  "arg_of line =
     (if CHR '' '' \<in> set line
      then drop (length (takeWhile (\<lambda>c. c \<noteq> CHR '' '') line) + 1) line
      else [])"

text \<open>
  What \<open>found_terminator\<close> decides for a line, in the order of its tests: one of its own
  replies, or the call of the method \<open>ftp_\<close> followed by the command name with an argument.
\<close>

datatype action =
    Missing_arg
  | Needs_no_arg
  | Login_first
  | Not_understood string
  | Outside_root string
  | Call string string

definition dispatch :: "host \<Rightarrow> session \<Rightarrow> string \<Rightarrow> action" where
  "dispatch h s line =
     (let cmd = cmd_of line; arg = arg_of line
      in if arg = [] \<and> cmd \<in> set arg_cmds then Missing_arg
         else if arg \<noteq> [] \<and> cmd \<in> set unarg_cmds then Needs_no_arg
         else if \<not> authenticated s
         then (if cmd \<in> set unauth_cmds
               then (if cmd = ''STAT'' \<and> arg \<noteq> [] then Login_first else Call cmd arg)
               else if cmd \<in> set proto_cmds then Login_first
               else Not_understood line)
         else if authenticated s \<and> cmd \<in> set proto_cmds
         then (if cmd \<in> set path_cmds \<and> \<not> validpath h (fs s) (ftp2fs (fs s) arg)
               then Outside_root (ftpnorm (fs s) arg)
               else Call cmd arg)
         else if contains cmd ''ABOR'' then Call ''ABOR'' []
         else if contains cmd ''STAT'' then Call ''STAT'' []
         else Not_understood line)"

text \<open>
  \<open>found_terminator\<close>: the buffered line is taken, the buffer emptied, and the decision
  carried out. \<open>getattr(self, 'ftp_' + cmd)\<close> looks the handler up by name in the object;
  \<open>methods\<close> is that table.
\<close>

definition cmd_not_understood :: "string \<Rightarrow> session \<Rightarrow> session" where
  "cmd_not_understood line s =
     respond (''500 Command '' @ DQUOTE # line @ DQUOTE # '' not understood.'') s"

definition cmd_missing_arg :: "session \<Rightarrow> session" where
  "cmd_missing_arg s = respond ''501 Syntax error: command needs an argument.'' s"

definition cmd_needs_no_arg :: "session \<Rightarrow> session" where
  "cmd_needs_no_arg s = respond ''501 Syntax error: command does not accept arguments.'' s"

definition found_terminator ::
    "(string \<Rightarrow> session \<Rightarrow> string \<Rightarrow> result) \<Rightarrow> host \<Rightarrow> session \<Rightarrow> result" where
  "found_terminator methods h s =
     (let line = concat (in_buffer s);
          s = s\<lparr>in_buffer := [], in_buffer_len := 0\<rparr>
      in case dispatch h s line of
           Missing_arg \<Rightarrow> Inr (cmd_missing_arg s)
         | Needs_no_arg \<Rightarrow> Inr (cmd_needs_no_arg s)
         | Login_first \<Rightarrow> Inr (respond ''530 Log in with USER and PASS first.'' s)
         | Not_understood l \<Rightarrow> Inr (cmd_not_understood l s)
         | Outside_root l \<Rightarrow>
             Inr (respond (''550 '' @ DQUOTE # l @ DQUOTE #
                    '' points to a path which is outside the user's root directory.'') s)
         | Call cmd arg \<Rightarrow> methods cmd s arg)"

section \<open>Transfers of a whole file\<close>

text \<open>
  The bytes a completed \<open>RETR\<close> puts on the data channel for a file with the given
  content, and the content of the file a \<open>STOR\<close> leaves when the bytes arrive in the given
  chunks (one \<open>handle_read\<close> for each chunk, into a file opened empty).
\<close>

definition retr_bytes :: "string \<Rightarrow> string \<Rightarrow> string" where
  "retr_bytes type bytes =
     drain (FileProducer \<lparr>content = bytes, pos = 0, closed = False\<rparr> type)"

definition stor_bytes :: "string \<Rightarrow> string list \<Rightarrow> string option" where
  "stor_bytes type chunks =
     (case receive_chunks chunks
             (enable_receiving type
                (DTPHandler\<lparr>dtp_file_obj :=
                     Some \<lparr>content = [], pos = 0, closed = False\<rparr>\<rparr>)) of
        Inl e \<Rightarrow> None
      | Inr d \<Rightarrow> map_option content (dtp_file_obj d))"

section \<open>Hosts and sessions for evaluation\<close>

text \<open>
  A host without symbolic links on which every call succeeds (there \<open>realpath\<close> only
  normalises an absolute path), the \<open>realpath\<close> of a host where \<open>/home/link\<close> is a symbolic
  link to \<open>/data/user\<close>, and a session logged in as \<open>bob\<close> with home directory
  \<open>/home/user\<close>, nothing queued on its control channel and a socket that takes what it is
  given.
\<close>

definition host0 :: host where
  "host0 =
     \<lparr>realpath = normpath, isdir = (\<lambda>p. True), listdir = (\<lambda>p. Inr []),
      format_mlsx = (\<lambda>p l. []), r_perm = (\<lambda>u p. True), open_rb = (\<lambda>p. Inr ''hello''),
      getsize = (\<lambda>p. Inr 5), seek_error = (\<lambda>p n. None),
      sock_send = (\<lambda>d. Sent (length d)), sock_connect = (\<lambda>i p. Connect_started)\<rparr>"

definition link_realpath :: "string \<Rightarrow> string" where
  "link_realpath p =
     (if p = ''/home/link'' \<or> startswith p ''/home/link/''
      then ''/data/user'' @ drop 10 p else p)"

definition fs0 :: abstracted_fs where
  "fs0 = \<lparr>root = ''/home/user'', cwd = ''/'', rnfr = None\<rparr>"

definition s0 :: session where
  "s0 =
     \<lparr>fs = fs0, in_dtp_queue = None, out_dtp_queue = None, authenticated = True,
      username = ''bob'', attempted_logins = 0, current_type = ''a'', restart_position = 0,
      quit_pending = False, data_server = None, data_channel = None,
      remote_ip = ''10.0.0.1'', in_buffer = [], in_buffer_len = 0, ctl_fifo = [],
      ctl_connected = True, socket_send = (\<lambda>d. Sent (length d)), trace = []\<rparr>"

definition cfg0 :: config where
  "cfg0 =
     \<lparr>permit_foreign_addresses = False, permit_privileged_ports = False, max_cons = 0,
      socket_map_len = 1\<rparr>"

section \<open>The specification's reading of a PORT argument\<close>

text \<open>
  The argument of \<open>PORT\<close> as the specification describes it: six fields separated by
  commas, each an integer from 0 to 255.
\<close>

definition port_field_ok :: "string \<Rightarrow> bool" where
  "port_field_ok f = (case py_int f of None \<Rightarrow> False | Some v \<Rightarrow> 0 \<le> v \<and> v \<le> 255)"

definition port_arg_ok :: "string \<Rightarrow> bool" where
  "port_arg_ok line =
     (let fields = split_chr CHR '','' line
      in 6 \<le> length fields \<and> list_all port_field_ok (take 6 fields))"

section \<open>Normal forms of paths\<close>

text \<open>
  A component that the loop of \<open>normpath\<close> keeps for an absolute path, and the components
  it ends with.
\<close>

definition clean :: "string \<Rightarrow> bool" where
  "clean x = (x \<noteq> [] \<and> x \<noteq> ''.'' \<and> x \<noteq> ''..'')"

definition norm_comps :: "string \<Rightarrow> string list" where
  "norm_comps p = foldl (norm_step (initial_slashes p)) [] (split_chr CHR ''/'' p)"

text \<open>The \<open>realpath\<close> of a host where \<open>/home/user/x\<close> is a symbolic link to \<open>/etc/passwd\<close>.\<close>

definition link_x :: "string \<Rightarrow> string" where
  "link_x p = (if p = ''/home/user/x'' then ''/etc/passwd'' else normpath p)"

section \<open>Facts about replies and the trace\<close>

lemmas path_defs =
  startswith_def endswith_def os_sep_def isabs_def path_join_def normpath_def
  initial_slashes_def norm_step_def

lemmas int_defs =
  py_int_def is_space_def unsigned_int_def is_digit_def digits_val_def digit_val_def Let_def

text \<open>
  \<open>int\<close> skips white space around the number and between the sign and the digits, and
  accepts nothing else beside decimal digits.
\<close>

lemma py_int_examples:
  "py_int '' 12 '' = Some 12" "py_int ''- 1'' = Some (- 1)" "py_int ''+7'' = Some 7"
  "py_int ''1 2'' = None" "py_int ''0x10'' = None" "py_int [] = None" "py_int ''-'' = None"
  by (simp_all add: int_defs)

lemma pushed_append: "pushed (xs @ ys) = pushed xs @ pushed ys"
  by (induction xs rule: pushed.induct) simp_all

lemma asyncore_read_Inr: "asyncore_read (Inr s) = s"
  by (simp add: asyncore_read_def)

lemma asyncore_read_Inl: "asyncore_read (Inl (e, s)) = close s"
  by (simp add: asyncore_read_def handle_error_def)

subsection \<open>Closing the data channel\<close>

lemma trace_dtp_close:
  "trace (dtp_close s)
     = trace s @ Close_data_channel # (if quit_pending s then [Close_when_done] else [])"
  by (simp add: dtp_close_def on_dtp_close_def close_when_done_def emit_def Let_def)

lemma dtp_close_fields:
  "fs (dtp_close s) = fs s" "data_server (dtp_close s) = data_server s"
  "authenticated (dtp_close s) = authenticated s" "username (dtp_close s) = username s"
  "current_type (dtp_close s) = current_type s"
  "restart_position (dtp_close s) = restart_position s"
  "quit_pending (dtp_close s) = quit_pending s"
  "ctl_connected (dtp_close s) = ctl_connected s"
  "socket_send (dtp_close s) = socket_send s"
  "data_channel (dtp_close s) = None"
  by (simp_all add: dtp_close_def on_dtp_close_def close_when_done_def emit_def Let_def)

lemma replies_dtp_close: "replies (dtp_close s) = replies s"
  by (simp add: replies_def trace_dtp_close pushed_append)

lemma passive_close_fields:
  "data_channel (passive_close s) = data_channel s"
  "quit_pending (passive_close s) = quit_pending s"
  "trace (passive_close s) = trace s @ [Close_data_server]"
  by (simp_all add: passive_close_def emit_def)

lemma replies_passive_close: "replies (passive_close s) = replies s"
  by (simp add: passive_close_def emit_def replies_def pushed_append)

subsection \<open>Closing the session\<close>

text \<open>
  \<open>close\<close> replies nothing, detaches the listener and the data channel, and leaves the
  account as it is.
\<close>

lemma close_fields:
  "fs (close s) = fs s" "authenticated (close s) = authenticated s"
  "username (close s) = username s" "current_type (close s) = current_type s"
  "restart_position (close s) = restart_position s"
  "quit_pending (close s) = quit_pending s"
  "data_server (close s) = None" "data_channel (close s) = None"
  "\<not> ctl_connected (close s)"
  by (simp_all add: close_def Let_def emit_def passive_close_def dtp_close_fields
      split: option.splits)

lemma replies_close: "replies (close s) = replies s"
  by (simp add: close_def Let_def emit_def passive_close_def replies_def pushed_append
      trace_dtp_close split: option.splits)

lemma session_closed_close: "session_closed (close s)"
  by (simp add: session_closed_def close_def Let_def emit_def)

lemma trace_close: "\<exists>es. trace (close s) = trace s @ es @ [Close_control]"
  by (simp add: close_def Let_def emit_def passive_close_def trace_dtp_close
      split: option.splits)

subsection \<open>Replies\<close>

text \<open>
  A call of \<open>push\<close> records the data and either only changes the queue of the control
  channel or, on a connected session, closes the session.
\<close>

lemma ctl_initiate_send_cases:
  "(\<exists>f. ctl_initiate_send s = s\<lparr>ctl_fifo := f\<rparr>)
   \<or> (ctl_connected s \<and> (\<exists>f. ctl_initiate_send s = close (s\<lparr>ctl_fifo := f\<rparr>)))"
proof (cases "ctl_fifo s")
  case Nil
  then have "ctl_initiate_send s = s\<lparr>ctl_fifo := ctl_fifo s\<rparr>"
    by (simp add: ctl_initiate_send_def)
  then show ?thesis by blast
next
  case (Cons first rest)
  show ?thesis
  proof (cases "ctl_connected s")
    case False
    then have "ctl_initiate_send s = s\<lparr>ctl_fifo := ctl_fifo s\<rparr>"
      using Cons by (simp add: ctl_initiate_send_def)
    then show ?thesis by blast
  next
    case True
    show ?thesis
    proof (cases first)
      case None
      then have "ctl_initiate_send s = close (s\<lparr>ctl_fifo := rest\<rparr>)"
        using Cons True by (simp add: ctl_initiate_send_def handle_close_def)
      then show ?thesis using True by blast
    next
      case (Some x)
      show ?thesis
      proof (cases "socket_send s (take ctl_out_buffer_size x)")
        case (Socket_error e)
        then have "ctl_initiate_send s
            = close (s\<lparr>ctl_fifo := (if x = [] then rest else first # rest)\<rparr>)"
          using Cons True Some by (simp add: ctl_initiate_send_def handle_error_def Let_def)
        then show ?thesis using True by blast
      next
        case (Sent n)
        define k where "k = min n (length (take ctl_out_buffer_size x))"
        define a where
          "a = (if k < length (take ctl_out_buffer_size x) \<or> ctl_out_buffer_size < length x
                then Some (drop k x) # rest else rest)"
        define b where "b = (if x = [] then rest else first # rest)"
        have "ctl_initiate_send s
            = (if k \<noteq> 0 then s\<lparr>ctl_fifo := a\<rparr> else s\<lparr>ctl_fifo := b\<rparr>)"
          unfolding ctl_initiate_send_def Let_def k_def a_def b_def
          using Cons True Some Sent by simp
        then have "ctl_initiate_send s = s\<lparr>ctl_fifo := (if k \<noteq> 0 then a else b)\<rparr>"
          by (cases "k = 0") simp_all
        then show ?thesis by blast
      qed
    qed
  qed
qed

lemma push_cases:
  "(\<exists>f. push d s = (emit (Push d) s)\<lparr>ctl_fifo := f\<rparr>)
   \<or> (ctl_connected s \<and> (\<exists>f. push d s = close ((emit (Push d) s)\<lparr>ctl_fifo := f\<rparr>)))"
proof -
  define s1 where
    "s1 = (emit (Push d) s)\<lparr>ctl_fifo := ctl_fifo (emit (Push d) s)
             @ map Some (if length d > ctl_out_buffer_size
                         then chunks_of ctl_out_buffer_size d else [d])\<rparr>"
  have p: "push d s = ctl_initiate_send s1"
    by (simp add: push_def s1_def Let_def)
  have c: "ctl_connected s1 = ctl_connected s"
    by (simp add: s1_def emit_def)
  have u: "s1\<lparr>ctl_fifo := f\<rparr> = (emit (Push d) s)\<lparr>ctl_fifo := f\<rparr>" for f
    by (simp add: s1_def)
  show ?thesis
    using ctl_initiate_send_cases [of s1] unfolding p c u by blast
qed

lemma respond_cases:
  "(\<exists>f. respond r s = (emit (Push (r @ CRLF)) s)\<lparr>ctl_fifo := f\<rparr>)
   \<or> (ctl_connected s
       \<and> (\<exists>f. respond r s = close ((emit (Push (r @ CRLF)) s)\<lparr>ctl_fifo := f\<rparr>)))"
  unfolding respond_def by (rule push_cases)

lemma replies_respond: "replies (respond r s) = replies s @ [r @ CRLF]"
  using respond_cases [of r s]
  by (auto simp: replies_close) (simp_all add: replies_def emit_def pushed_append)

lemma respond_fields:
  "fs (respond r s) = fs s" "authenticated (respond r s) = authenticated s"
  "username (respond r s) = username s" "current_type (respond r s) = current_type s"
  "restart_position (respond r s) = restart_position s"
  "quit_pending (respond r s) = quit_pending s"
  using respond_cases [of r s] by (auto simp: close_fields emit_def)

text \<open>
  A reply either leaves the listener, the data channel and the connection as they are and
  adds itself to the trace, or closes a session that was connected.
\<close>

lemma respond_dtp:
  "(ctl_connected (respond r s) = ctl_connected s
    \<and> data_server (respond r s) = data_server s
    \<and> data_channel (respond r s) = data_channel s
    \<and> trace (respond r s) = trace s @ [Push (r @ CRLF)])
   \<or> (ctl_connected s \<and> \<not> ctl_connected (respond r s)
       \<and> data_server (respond r s) = None \<and> data_channel (respond r s) = None
       \<and> session_closed (respond r s))"
  using respond_cases [of r s] by (auto simp: close_fields session_closed_close emit_def)

lemma data_server_respond:
  "data_server s = None \<Longrightarrow> data_server (respond r s) = None"
  using respond_dtp [of r s] by auto

lemma data_channel_respond:
  "data_channel s = None \<Longrightarrow> data_channel (respond r s) = None"
  using respond_dtp [of r s] by auto

text \<open>
  On a connected control channel with nothing queued, a reply that fits one buffer and that
  the socket does not refuse only adds itself to the trace.
\<close>

lemma respond_idle:
  assumes "ctl_fifo s = []" and "length (r @ CRLF) \<le> ctl_out_buffer_size"
    and "socket_send s (r @ CRLF) = Sent n"
  shows "trace (respond r s) = trace s @ [Push (r @ CRLF)]"
    and "ctl_connected (respond r s) = ctl_connected s"
    and "data_server (respond r s) = data_server s"
    and "data_channel (respond r s) = data_channel s"
  using assms
  by (simp_all add: respond_def push_def ctl_initiate_send_def emit_def Let_def CRLF_def)

subsection \<open>The restart position\<close>

text \<open>Nothing a data channel does changes the restart position of the session.\<close>

lemma restart_position_dtp_handle_close:
  "restart_position (dtp_handle_close s) = restart_position s"
  by (simp add: dtp_handle_close_def dtp_close_fields respond_fields Let_def
      split: option.splits)

lemma restart_position_dtp_handle_error:
  "restart_position (dtp_handle_error e s) = restart_position s"
  by (simp add: dtp_handle_error_def dtp_close_fields respond_fields)

lemma restart_position_initiate_send:
  "restart_position (initiate_send h s) = restart_position s"
proof (induction h s rule: initiate_send.induct)
  case (1 h s)
  show ?case
  proof (cases "data_channel s")
    case None
    then show ?thesis by (subst initiate_send.simps) simp
  next
    case (Some d)
    show ?thesis
    proof (cases "producer_fifo d")
      case Nil
      then show ?thesis using Some by (subst initiate_send.simps) simp
    next
      case (Cons first rest)
      show ?thesis
      proof (cases "connected d")
        case False
        then show ?thesis using Some Cons by (subst initiate_send.simps) simp
      next
        case True
        show ?thesis
        proof (cases first)
          case End_mark
          then show ?thesis
            using Some Cons True
            by (subst initiate_send.simps) (simp add: restart_position_dtp_handle_close)
        next
          case (Producer p)
          obtain r p' where m: "more_data p = (r, p')"
            by (cases "more_data p")
          show ?thesis
          proof (cases r)
            case None
            then show ?thesis
              using Some Cons True Producer m
                "1.IH"(1) [OF Some Cons _ Producer m [symmetric]]
              by (subst initiate_send.simps) simp
          next
            case (Some x)
            then show ?thesis
              using \<open>data_channel s = Some d\<close> Cons True Producer m
                "1.IH"(2) [OF \<open>data_channel s = Some d\<close> Cons _ Producer m [symmetric]]
              by (subst initiate_send.simps) simp
          qed
        next
          case (Data x)
          then show ?thesis
            using Some Cons True
            by (subst initiate_send.simps)
               (simp add: restart_position_dtp_handle_error Let_def split: send_result.splits)
        qed
      qed
    qed
  qed
qed

lemma restart_position_dtp_push:
  "restart_position (dtp_push h x s) = restart_position s"
  by (cases "data_channel s") (simp_all add: dtp_push_def restart_position_initiate_send Let_def)

lemma restart_position_dtp_push_with_producer:
  "restart_position (dtp_push_with_producer h p s) = restart_position s"
  by (cases "data_channel s")
     (simp_all add: dtp_push_with_producer_def restart_position_initiate_send)

lemma restart_position_dtp_close_when_done:
  "restart_position (dtp_close_when_done s) = restart_position s"
  by (cases "data_channel s") (simp_all add: dtp_close_when_done_def)

text \<open>
  Whether \<open>push_dtp_data\<close> returns or raises, the session it leaves has the restart
  position it was given.
\<close>

lemma restart_position_push_dtp_data:
  "restart_position (asyncore_read (push_dtp_data h d log s)) = restart_position s"
proof (cases "data_channel s")
  case None
  then show ?thesis
    by (simp add: push_dtp_data_def respond_fields asyncore_read_Inr)
next
  case (Some c)
  define s1 where "s1 = respond ''125 Data connection already open. Transfer starting.'' s"
  have r1: "restart_position s1 = restart_position s"
    unfolding s1_def by (simp add: respond_fields)
  show ?thesis
  proof (cases "data_channel s1")
    case None
    then have "push_dtp_data h d log s = Inl (AttributeError, s1)"
      unfolding push_dtp_data_def Let_def s1_def using Some by simp
    then show ?thesis
      using r1 by (simp add: asyncore_read_Inl close_fields)
  next
    case ch: (Some d0)
    define s2 where "s2 = (case d of Str x \<Rightarrow> dtp_push h x s1
                            | Prod p \<Rightarrow> dtp_push_with_producer h p s1)"
    have r2: "restart_position s2 = restart_position s"
      unfolding s2_def using r1
      by (cases d)
         (simp_all add: restart_position_dtp_push restart_position_dtp_push_with_producer)
    have "push_dtp_data h d log s
        = Inr (case data_channel s2 of Some d' \<Rightarrow> dtp_close_when_done s2 | None \<Rightarrow> s2)"
      unfolding push_dtp_data_def Let_def s2_def s1_def
      using Some ch [unfolded s1_def] by simp
    then show ?thesis
      using r2
      by (cases "data_channel s2")
         (simp_all add: restart_position_dtp_close_when_done asyncore_read_Inr)
  qed
qed

section \<open>The virtual file system\<close>

subsection \<open>The containment predicate\<close>

text \<open>
  When the root is written without a trailing separator, the resolved root plays no part in
  the answer of \<open>validpath\<close>.
\<close>

lemma validpath_unresolved_root:
  "\<not> endswith (root vfs) os_sep \<Longrightarrow>
   validpath h vfs p
     = startswith (if endswith (realpath h p) os_sep then realpath h p
                   else realpath h p @ os_sep)
         (root vfs @ os_sep)"
  by (simp add: validpath_def startswith_def Let_def)

text \<open>
  C1. The claim: \<open>validpath\<close> resolves the symbolic links of the root and of the path,
  gives each a trailing separator and answers whether the resolved path begins with the
  resolved root and its separator; the root it compares with is the resolved one. The code
  resolves the root and then tests and extends \<open>self.root\<close>, the unresolved one. With a
  home directory \<open>/home/link\<close> that is a symbolic link to \<open>/data/user\<close>, the file
  \<open>/home/link/file\<close> lies inside the resolved root and is refused; with a home directory
  written \<open>/home/user/\<close> the resolved root gets no separator and the sibling
  \<open>/home/username/x\<close> is accepted.
\<close>

theorem C1_validpath_unresolved_root:
  "validpath_spec (host0\<lparr>realpath := link_realpath\<rparr>) (fs0\<lparr>root := ''/home/link''\<rparr>)
       ''/home/link/file''
   \<and> \<not> validpath (host0\<lparr>realpath := link_realpath\<rparr>) (fs0\<lparr>root := ''/home/link''\<rparr>)
         ''/home/link/file''
   \<and> \<not> validpath_spec host0 (fs0\<lparr>root := ''/home/user/''\<rparr>) ''/home/username/x''
   \<and> validpath host0 (fs0\<lparr>root := ''/home/user/''\<rparr>) ''/home/username/x''"
  by (simp add: validpath_def validpath_spec_def host0_def fs0_def link_realpath_def
      path_defs Let_def)

subsection \<open>Path translation\<close>

text \<open>Splitting at a separator undoes joining with it.\<close>

lemma split_chr_not_Nil: "split_chr c s \<noteq> []"
  by (induction s) (auto split: list.splits)

lemma split_chr_sep: "split_chr c (c # s) = [] # split_chr c s"
  by simp

lemma split_chr_no_sep: "c \<notin> set a \<Longrightarrow> split_chr c a = [a]"
  by (induction a) (auto split: list.splits)

lemma split_chr_append:
  "c \<notin> set a \<Longrightarrow> split_chr c (a @ c # b) = a # split_chr c b"
  by (induction a) (auto split: list.splits)

lemma split_chr_elems: "x \<in> set (split_chr c s) \<Longrightarrow> c \<notin> set x"
proof (induction s arbitrary: x)
  case Nil
  then show ?case by simp
next
  case (Cons a s)
  show ?case
  proof (cases "a = c")
    case True
    then show ?thesis using Cons by auto
  next
    case False
    obtain w ws where w: "split_chr c s = w # ws"
      using split_chr_not_Nil [of c s] by (cases "split_chr c s") auto
    then have "x = a # w \<or> x \<in> set ws"
      using Cons.prems False by auto
    then show ?thesis
      using Cons.IH [of w] Cons.IH [of x] w False by auto
  qed
qed

lemma split_join:
  "cs \<noteq> [] \<Longrightarrow> (\<forall>x \<in> set cs. c \<notin> set x) \<Longrightarrow> split_chr c (join_str [c] cs) = cs"
proof (induction cs)
  case Nil
  then show ?case by simp
next
  case (Cons x xs)
  show ?case
  proof (cases xs)
    case Nil
    then show ?thesis using Cons.prems by (simp add: split_chr_no_sep)
  next
    case (Cons y ys)
    then have "split_chr c (join_str [c] xs) = xs"
      using Cons.IH Cons.prems by simp
    then show ?thesis
      using Cons Cons.prems split_chr_append [of c x "join_str [c] xs"] by simp
  qed
qed

text \<open>
  For an absolute path the loop of \<open>normpath\<close> keeps only clean components, all taken from
  the path, and passes a list of clean components on unchanged.
\<close>

lemma norm_step_clean:
  "init \<noteq> 0 \<Longrightarrow> list_all clean st \<Longrightarrow> list_all clean (norm_step init st x)"
  by (auto simp: norm_step_def clean_def list_all_iff dest: in_set_butlastD)

lemma norm_step_subset:
  "set (norm_step init st x) \<subseteq> insert x (set st)"
  by (auto simp: norm_step_def dest: in_set_butlastD)

lemma foldl_norm_step_clean:
  "init \<noteq> 0 \<Longrightarrow> list_all clean st \<Longrightarrow> list_all clean (foldl (norm_step init) st xs)"
  by (induction xs arbitrary: st) (simp_all add: norm_step_clean)

lemma foldl_norm_step_subset:
  "set (foldl (norm_step init) st xs) \<subseteq> set st \<union> set xs"
proof (induction xs arbitrary: st)
  case Nil
  then show ?case by simp
next
  case (Cons x xs)
  show ?case
    using Cons.IH [of "norm_step init st x"] norm_step_subset [of init st x] by auto
qed

lemma foldl_norm_step_id:
  "list_all clean xs \<Longrightarrow> foldl (norm_step init) st xs = st @ xs"
  by (induction xs arbitrary: st) (simp_all add: norm_step_def clean_def)

lemma foldl_norm_step_empties:
  "foldl (norm_step init) st (replicate n [] @ xs) = foldl (norm_step init) st xs"
  by (induction n) (simp_all add: norm_step_def)

lemma split_chr_replicate:
  "split_chr c (replicate n c @ s) = replicate n [] @ split_chr c s"
  by (induction n) simp_all

lemma initial_slashes_abs: "isabs p \<Longrightarrow> initial_slashes p = 1 \<or> initial_slashes p = 2"
  by (simp add: isabs_def initial_slashes_def)

lemma normpath_abs:
  assumes "isabs p"
  shows "normpath p = replicate (initial_slashes p) CHR ''/'' @ join_str ''/'' (norm_comps p)"
proof -
  have "p \<noteq> []"
    using assms by (auto simp: isabs_def startswith_def)
  moreover have "replicate (initial_slashes p) CHR ''/'' \<noteq> []"
    using initial_slashes_abs [OF assms] by auto
  ultimately show ?thesis
    by (simp add: normpath_def norm_comps_def Let_def)
qed

lemma norm_comps_clean:
  assumes "isabs p"
  shows "list_all clean (norm_comps p)" and "\<forall>x \<in> set (norm_comps p). CHR ''/'' \<notin> set x"
proof -
  have i: "initial_slashes p \<noteq> 0"
    using initial_slashes_abs [OF assms] by auto
  show "list_all clean (norm_comps p)"
    unfolding norm_comps_def using foldl_norm_step_clean [OF i, of "[]"] by simp
  show "\<forall>x \<in> set (norm_comps p). CHR ''/'' \<notin> set x"
    unfolding norm_comps_def
    using foldl_norm_step_subset [of "initial_slashes p" "[]" "split_chr CHR ''/'' p"]
      split_chr_elems [of _ "CHR ''/''" p] by auto
qed

lemma join_str_Cons: "\<exists>t. join_str sep (x # xs) = x @ t"
  by (cases xs) simp_all

lemma initial_slashes_form:
  assumes "n = 1 \<or> n = 2" and "list_all clean cs" and "\<forall>x \<in> set cs. CHR ''/'' \<notin> set x"
  shows "initial_slashes (replicate n CHR ''/'' @ join_str ''/'' cs) = n"
proof (cases cs)
  case Nil
  then show ?thesis
    using assms(1) by (auto simp: initial_slashes_def startswith_def)
next
  case (Cons x xs)
  have "x \<noteq> []" and "CHR ''/'' \<notin> set x"
    using assms(2,3) Cons by (auto simp: clean_def)
  then obtain a as where x: "x = a # as" and a: "a \<noteq> CHR ''/''"
    by (cases x) auto
  obtain t where "join_str ''/'' (x # xs) = x @ t"
    using join_str_Cons by blast
  then have t: "join_str ''/'' cs = a # (as @ t)"
    using Cons x by simp
  show ?thesis
    using assms(1) a unfolding t
    by (auto simp: initial_slashes_def startswith_def numeral_2_eq_2)
qed

lemma norm_comps_form:
  assumes "n = 1 \<or> n = 2" and "list_all clean cs" and "\<forall>x \<in> set cs. CHR ''/'' \<notin> set x"
  shows "norm_comps (replicate n CHR ''/'' @ join_str ''/'' cs) = cs"
proof -
  have sp: "foldl (norm_step n) [] (split_chr CHR ''/'' (join_str ''/'' cs)) = cs"
  proof (cases "cs = []")
    case True
    then show ?thesis by (simp add: norm_step_def)
  next
    case False
    then have "split_chr CHR ''/'' (join_str ''/'' cs) = cs"
      using split_join [of cs "CHR ''/''"] assms(3) by simp
    then show ?thesis
      using foldl_norm_step_id [OF assms(2), of n "[]"] by simp
  qed
  show ?thesis
    unfolding norm_comps_def initial_slashes_form [OF assms] split_chr_replicate
      foldl_norm_step_empties
    by (rule sp)
qed

lemma isabs_form: "n = 1 \<or> n = 2 \<Longrightarrow> isabs (replicate n CHR ''/'' @ t)"
  by (auto simp: isabs_def startswith_def numeral_2_eq_2)

lemma normpath_idem:
  assumes "isabs p"
  shows "normpath (normpath p) = normpath p" and "isabs (normpath p)"
proof -
  let ?n = "initial_slashes p" and ?cs = "norm_comps p"
  have n: "?n = 1 \<or> ?n = 2"
    by (rule initial_slashes_abs [OF assms])
  note c = norm_comps_clean [OF assms]
  have e: "normpath p = replicate ?n CHR ''/'' @ join_str ''/'' ?cs"
    by (rule normpath_abs [OF assms])
  show a: "isabs (normpath p)"
    unfolding e by (rule isabs_form [OF n])
  have "normpath (normpath p)
      = replicate (initial_slashes (normpath p)) CHR ''/'' @ join_str ''/'' (norm_comps (normpath p))"
    by (rule normpath_abs [OF a])
  also have "\<dots> = replicate ?n CHR ''/'' @ join_str ''/'' ?cs"
    unfolding e initial_slashes_form [OF n c] norm_comps_form [OF n c] by simp
  finally show "normpath (normpath p) = normpath p"
    using e by simp
qed

text \<open>The host path \<open>ftp2fs\<close> computes under an absolute root is absolute and normalised.\<close>

lemma ftpnorm_abs: "isabs (ftpnorm vfs p)"
  by (simp add: ftpnorm_def Let_def isabs_def startswith_def)

lemma path_join_abs: "isabs a \<Longrightarrow> isabs (path_join a b)"
  by (cases a) (auto simp: path_join_def isabs_def startswith_def)

lemma ftp2fs_normal:
  assumes "isabs (root vfs)"
  shows "isabs (ftp2fs vfs p)" and "normpath (ftp2fs vfs p) = ftp2fs vfs p"
proof -
  obtain z where z: "isabs z" and e: "ftp2fs vfs p = normpath z"
  proof (cases "normpath (root vfs) = os_sep")
    case True
    then have "ftp2fs vfs p = normpath (ftpnorm vfs p)"
      by (simp add: ftp2fs_def)
    then show ?thesis
      using ftpnorm_abs that by blast
  next
    case False
    then have "ftp2fs vfs p = normpath (path_join (root vfs) (drop 1 (ftpnorm vfs p)))"
      by (simp add: ftp2fs_def Let_def)
    then show ?thesis
      using path_join_abs [OF assms] that by blast
  qed
  show "isabs (ftp2fs vfs p)" and "normpath (ftp2fs vfs p) = ftp2fs vfs p"
    unfolding e using normpath_idem [OF z] by simp_all
qed

lemma replace_str_sep: "replace_str os_sep ''/'' x = x"
  by (induction x) (simp_all add: os_sep_def startswith_def)

lemma fs2ftp_normal:
  assumes "isabs q" and "normpath q = q"
  shows "fs2ftp h vfs q
     = (if \<not> validpath h vfs q then ''/''
        else if \<not> startswith (drop (length (root vfs)) q) ''/''
             then ''/'' @ drop (length (root vfs)) q
             else drop (length (root vfs)) q)"
  using assms by (simp add: fs2ftp_def Let_def replace_str_sep)

text \<open>
  C6, amended: for every session whose root is an absolute host path and every client path
  \<open>p\<close> whose host path \<open>ftp2fs(p)\<close> goes on after the first \<open>len(root)\<close> characters with
  something other than a lone \<open>/\<close> (the host path is not the root directory itself),
  \<open>validpath(ftp2fs(p))\<close> is true if and only if \<open>fs2ftp(ftp2fs(p))\<close> differs from \<open>/\<close>.
\<close>

theorem C6_validpath_iff_fs2ftp:
  assumes "isabs (root vfs)"
    and "drop (length (root vfs)) (ftp2fs vfs p) \<noteq> []"
    and "drop (length (root vfs)) (ftp2fs vfs p) \<noteq> ''/''"
  shows "validpath h vfs (ftp2fs vfs p) \<longleftrightarrow> fs2ftp h vfs (ftp2fs vfs p) \<noteq> ''/''"
proof -
  let ?d = "drop (length (root vfs)) (ftp2fs vfs p)"
  note n = ftp2fs_normal [OF assms(1), of p]
  have e: "fs2ftp h vfs (ftp2fs vfs p)
     = (if \<not> validpath h vfs (ftp2fs vfs p) then ''/''
        else if \<not> startswith ?d ''/'' then ''/'' @ ?d else ?d)"
    by (rule fs2ftp_normal [OF n])
  show ?thesis
    unfolding e using assms(2,3) by simp
qed

text \<open>
  C6, as stated: for a client path \<open>p\<close> other than \<open>/\<close>, \<open>validpath(ftp2fs(p))\<close> is true
  if and only if \<open>fs2ftp(ftp2fs(p))\<close> differs from \<open>/\<close>. Other client paths name the root as
  well: with the working directory \<open>/\<close> the path \<open>.\<close> translates to the root directory,
  which is valid and whose virtual name is \<open>/\<close>.
\<close>

theorem C6_counterexample:
  "''.'' \<noteq> ''/''
   \<and> validpath host0 fs0 (ftp2fs fs0 ''.'')
   \<and> fs2ftp host0 fs0 (ftp2fs fs0 ''.'') = ''/''"
proof -
  have n: "ftpnorm fs0 ''.'' = ''/''"
    by (simp add: ftpnorm_def fs0_def path_defs BACKSLASH_def Let_def)
  have r: "normpath ''/home/user'' = ''/home/user''"
    by (simp add: path_defs)
  have f: "ftp2fs fs0 ''.'' = ''/home/user''"
    unfolding ftp2fs_def n by (simp add: fs0_def r path_defs)
  have v: "validpath host0 fs0 ''/home/user''"
    by (simp add: validpath_def host0_def fs0_def r Let_def endswith_def os_sep_def)
  show ?thesis
    unfolding f using v by (simp add: fs2ftp_def fs0_def r Let_def isabs_def startswith_def os_sep_def)
qed

theorem C6_validpath_iff_fs2ftp_witness:
  "isabs (root fs0)
   \<and> drop (length (root fs0)) (ftp2fs fs0 ''x'') = ''/x''
   \<and> validpath host0 fs0 (ftp2fs fs0 ''x'')
   \<and> fs2ftp host0 fs0 (ftp2fs fs0 ''x'') \<noteq> ''/''
   \<and> \<not> validpath (host0\<lparr>realpath := link_x\<rparr>) fs0 (ftp2fs fs0 ''x'')
   \<and> fs2ftp (host0\<lparr>realpath := link_x\<rparr>) fs0 (ftp2fs fs0 ''x'') = ''/''"
proof -
  have a: "isabs (root fs0)"
    by (simp add: fs0_def isabs_def startswith_def)
  have n: "ftpnorm fs0 ''x'' = ''/x''"
    by (simp add: ftpnorm_def fs0_def path_defs BACKSLASH_def Let_def)
  have r: "normpath ''/home/user'' = ''/home/user''"
    by (simp add: path_defs)
  have f: "ftp2fs fs0 ''x'' = ''/home/user/x''"
    unfolding ftp2fs_def n by (simp add: fs0_def r path_defs)
  have d: "drop (length (root fs0)) (ftp2fs fs0 ''x'') = ''/x''"
    unfolding f by (simp add: fs0_def)
  have d1: "drop (length (root fs0)) (ftp2fs fs0 ''x'') \<noteq> []"
    and d2: "drop (length (root fs0)) (ftp2fs fs0 ''x'') \<noteq> ''/''"
    unfolding d by simp_all
  have v: "validpath host0 fs0 (ftp2fs fs0 ''x'')"
    unfolding f
    by (simp add: validpath_def host0_def fs0_def Let_def path_defs)
  have w: "\<not> validpath (host0\<lparr>realpath := link_x\<rparr>) fs0 (ftp2fs fs0 ''x'')"
    unfolding f
    by (simp add: validpath_def fs0_def link_x_def Let_def endswith_def os_sep_def)
  show ?thesis
    using a d v w C6_validpath_iff_fs2ftp [OF a d1 d2, of host0]
      C6_validpath_iff_fs2ftp [OF a d1 d2, of "host0\<lparr>realpath := link_x\<rparr>"]
    by blast
qed

section \<open>ASCII transfers\<close>

text \<open>
  On the whole stream the two translations are inverse: a retrieval in type ASCII sends the
  file with every line feed replaced, and when all of it arrives as one chunk the file
  stored is the file sent.
\<close>

lemma replace_lf_append:
  "replace_str [LF] CRLF (a @ b) = replace_str [LF] CRLF a @ replace_str [LF] CRLF b"
  by (induction a) (simp_all add: startswith_def)

lemma replace_lf_no_leading_lf: "replace_str [LF] CRLF x \<noteq> LF # t"
  by (cases x) (auto simp: startswith_def CRLF_def CR_def LF_def)

lemma replace_crlf_inverse: "replace_str CRLF [LF] (replace_str [LF] CRLF x) = x"
proof (induction x)
  case Nil
  then show ?case by (simp add: CRLF_def)
next
  case (Cons c cs)
  define R where "R = replace_str [LF] CRLF cs"
  have IH: "replace_str CRLF [LF] R = cs"
    using Cons by (simp add: R_def)
  show ?case
  proof (cases "c = LF")
    case True
    then have "replace_str [LF] CRLF (c # cs) = CR # LF # R"
      by (simp add: startswith_def CRLF_def R_def)
    moreover have "replace_str CRLF [LF] (CR # LF # R) = LF # replace_str CRLF [LF] R"
      by (simp add: startswith_def CRLF_def)
    ultimately show ?thesis
      using IH True by simp
  next
    case False
    then have e: "replace_str [LF] CRLF (c # cs) = c # R"
      by (simp add: startswith_def R_def)
    have "R \<noteq> LF # tl R"
      unfolding R_def by (rule replace_lf_no_leading_lf)
    then have ns: "\<not> startswith (c # R) CRLF"
      by (cases R) (auto simp: startswith_def CRLF_def)
    have "CRLF \<noteq> []"
      by (simp add: CRLF_def)
    then have "replace_str CRLF [LF] (c # R) = c # replace_str CRLF [LF] R"
      using ns by simp
    then show ?thesis
      using e IH by simp
  qed
qed

lemma drain_ascii:
  "\<not> p_done p \<Longrightarrow> p_wrapper p = Linesep_to_CRLF \<Longrightarrow>
   drain p = replace_str [LF] CRLF (drop (pos (p_file p)) (content (p_file p)))"
proof (induction p rule: drain.induct)
  case (1 p)
  define raw where "raw = take out_buffer_size (drop (pos (p_file p)) (content (p_file p)))"
  define q where "q = p\<lparr>p_file := (p_file p)\<lparr>pos := pos (p_file p) + length raw\<rparr>\<rparr>"
  have md: "more_data p =
      (if replace_str [LF] CRLF raw = [] then (None, producer_close (q\<lparr>p_done := True\<rparr>))
       else (Some (replace_str [LF] CRLF raw), q))"
    using "1.prems" by (simp add: more_data_def file_read_def raw_def q_def Let_def os_linesep_def)
  have z: "replace_str [LF] CRLF raw = [] \<longleftrightarrow> raw = []"
    by (cases raw) (simp_all add: startswith_def CRLF_def)
  have o: "0 < out_buffer_size"
    by (simp add: out_buffer_size_def)
  show ?case
  proof (cases "raw = []")
    case True
    then have "drop (pos (p_file p)) (content (p_file p)) = []"
      using o by (simp add: raw_def)
    moreover have "drain p = []"
      using "1.prems"(1) md z True by (subst drain.simps) simp
    ultimately show ?thesis by simp
  next
    case False
    have m: "more_data p = (Some (replace_str [LF] CRLF raw), q)"
      using md z False by simp
    have IH: "drain q = replace_str [LF] CRLF (drop (pos (p_file q)) (content (p_file q)))"
      using "1.IH" [OF "1.prems"(1) m [symmetric] refl] "1.prems" by (simp add: q_def)
    have d: "drain p = replace_str [LF] CRLF raw @ drain q"
      using "1.prems"(1) m by (subst drain.simps) simp
    have "drop (pos (p_file p)) (content (p_file p))
        = raw @ drop (pos (p_file q)) (content (p_file q))"
      by (simp add: raw_def q_def min_def add.commute)
         (metis append_take_drop_id drop_drop length_take min_def add.commute)
    then show ?thesis
      unfolding d IH by (simp add: replace_lf_append)
  qed
qed

lemma retr_bytes_ascii: "retr_bytes ''a'' bytes = replace_str [LF] CRLF bytes"
  unfolding retr_bytes_def
  by (subst drain_ascii) (simp_all add: FileProducer_def)

lemma ascii_round_trip_one_chunk: "stor_bytes ''a'' [retr_bytes ''a'' bytes] = Some bytes"
proof (cases "bytes = []")
  case True
  then show ?thesis
    by (simp add: retr_bytes_ascii stor_bytes_def enable_receiving_def DTPHandler_def
        dtp_handle_read_def)
next
  case False
  then have "replace_str [LF] CRLF bytes \<noteq> []"
    by (cases bytes) (simp_all add: startswith_def CRLF_def)
  then show ?thesis
    by (simp add: retr_bytes_ascii stor_bytes_def enable_receiving_def DTPHandler_def
        dtp_handle_read_def file_write_def os_linesep_def replace_crlf_inverse Let_def)
qed

text \<open>
  C4. The claim: with type ASCII the outbound and the inbound translation are inverse, so
  that for every file and every way the transmitted bytes are cut into chunks, storing what
  a retrieval sent gives the file back. The code translates each received chunk on its own:
  the file holding one line feed is sent as carriage return, line feed; when the two bytes
  arrive in two chunks neither chunk contains the pair, and the file stored holds both
  bytes instead of the line feed.
\<close>

theorem C4_crlf_split_across_chunks:
  "retr_bytes ''a'' [LF] = concat [[CR], [LF]]
   \<and> stor_bytes ''a'' [[CR], [LF]] = Some [CR, LF]
   \<and> stor_bytes ''a'' [[CR], [LF]] \<noteq> Some [LF]"
  by (simp add: retr_bytes_def stor_bytes_def drain.simps FileProducer_def more_data_def
      file_read_def out_buffer_size_def producer_close_def file_close_def enable_receiving_def
      DTPHandler_def dtp_handle_read_def file_write_def os_linesep_def CRLF_def CR_def LF_def
      startswith_def Let_def)

section \<open>Handlers\<close>

subsection \<open>Replies on a control channel that is about to close\<close>

text \<open>
  Once a request to close is at the head of the queue of a connected control channel, as
  after a \<open>QUIT\<close> whose reply the socket has taken, the next reply closes the session.
  The client reaches this state by sending further commands behind \<open>QUIT\<close> in one
  segment.
\<close>

lemma respond_behind_close_request:
  assumes "ctl_connected s" and "ctl_fifo s = None # rest"
  shows "session_closed (respond r s)" and "\<not> ctl_connected (respond r s)"
    and "data_server (respond r s) = None" and "data_channel (respond r s) = None"
proof -
  have "respond r s
      = close ((emit (Push (r @ CRLF)) s)
                 \<lparr>ctl_fifo := rest @ map Some
                     (if length (r @ CRLF) > ctl_out_buffer_size
                      then chunks_of ctl_out_buffer_size (r @ CRLF) else [r @ CRLF])\<rparr>)"
    using assms
    by (simp add: respond_def push_def ctl_initiate_send_def emit_def handle_close_def Let_def)
  then show "session_closed (respond r s)" and "\<not> ctl_connected (respond r s)"
    and "data_server (respond r s) = None" and "data_channel (respond r s) = None"
    by (simp_all add: session_closed_close close_fields)
qed

lemma replies_flush_account: "replies (flush_account s) = replies s"
  by (simp add: replies_def flush_account_def Let_def passive_close_def emit_def
      pushed_append trace_dtp_close dtp_close_fields split: option.splits)

lemma flush_account_ctl:
  "ctl_connected (flush_account s) = ctl_connected s"
  "socket_send (flush_account s) = socket_send s"
  by (simp_all add: flush_account_def Let_def passive_close_def emit_def dtp_close_fields
      split: option.splits)

subsection \<open>PORT\<close>

text \<open>
  C2, as stated: whenever one of the six fields of the argument is not an integer from 0 to
  255, or there are fewer than six fields, the reply is \<open>501 Invalid PORT format.\<close> and the
  session goes on. The code never compares a field with 255: for the peer 10.0.0.1 the
  argument \<open>10,0,0,1,4,256\<close> is taken as port 1280, a connection is started and nothing is
  replied.
\<close>

theorem C2_counterexample:
  "\<not> port_arg_ok ''10,0,0,1,4,256''
   \<and> asyncore_read (ftp_PORT cfg0 host0 s0 ''10,0,0,1,4,256'')
       = emit (Connect ''10.0.0.1'' 1280) s0
   \<and> asyncore_read (ftp_PORT cfg0 host0 s0 ''10,0,0,1,4,256'')
       \<noteq> respond ''501 Invalid PORT format.'' s0
   \<and> replies (asyncore_read (ftp_PORT cfg0 host0 s0 ''10,0,0,1,4,256'')) = []"
proof -
  have f: "split_chr CHR '','' ''10,0,0,1,4,256'' = [''10'', ''0'', ''0'', ''1'', ''4'', ''256'']"
    by simp
  have p1: "py_int ''4'' = Some 4" and p2: "py_int ''256'' = Some 256"
    by (simp_all add: int_defs)
  have p0: "py_int ''10'' = Some 10" "py_int ''0'' = Some 0" "py_int ''1'' = Some 1"
    by (simp_all add: int_defs)
  have nok: "\<not> port_arg_ok ''10,0,0,1,4,256''"
    unfolding port_arg_ok_def f by (simp add: port_field_ok_def p0 p1 p2)
  have ip: "replace_str '','' ''.''
        (join_str ''.'' (take 4 [''10'', ''0'', ''0'', ''1'', ''4'', ''256'']))
      = ''10.0.0.1''"
    by (simp add: startswith_def)
  have r: "ftp_PORT cfg0 host0 s0 ''10,0,0,1,4,256'' = Inr (emit (Connect ''10.0.0.1'' 1280) s0)"
    unfolding ftp_PORT_def f Let_def ip
    by (simp add: p1 p2 cfg0_def s0_def host0_def ActiveDTP_def emit_def)
  have t: "replies (respond ''501 Invalid PORT format.'' s0)
      = replies s0 @ [''501 Invalid PORT format.'' @ CRLF]"
    by (rule replies_respond)
  have e: "replies (emit (Connect ''10.0.0.1'' 1280) s0) = []"
    by (simp add: replies_def emit_def s0_def)
  have ne: "emit (Connect ''10.0.0.1'' 1280) s0 \<noteq> respond ''501 Invalid PORT format.'' s0"
  proof
    assume "emit (Connect ''10.0.0.1'' 1280) s0 = respond ''501 Invalid PORT format.'' s0"
    then have "replies (emit (Connect ''10.0.0.1'' 1280) s0)
        = replies (respond ''501 Invalid PORT format.'' s0)"
      by simp
    then show False
      unfolding t e by simp
  qed
  show ?thesis
    unfolding r asyncore_read_Inr using nok ne e by simp
qed

text \<open>
  An argument with fewer than five fields: the \<open>IndexError\<close> of \<open>line[4]\<close> is not among the
  exceptions the handler catches, and the session is closed without a reply.
\<close>

lemma ftp_PORT_short_argument:
  "\<not> port_arg_ok ''1,2,3''
   \<and> ftp_PORT cfg0 host0 s0 ''1,2,3'' = Inl (IndexError, s0)
   \<and> session_closed (asyncore_read (ftp_PORT cfg0 host0 s0 ''1,2,3''))"
proof -
  have f: "split_chr CHR '','' ''1,2,3'' = [''1'', ''2'', ''3'']"
    by simp
  have r: "ftp_PORT cfg0 host0 s0 ''1,2,3'' = Inl (IndexError, s0)"
    unfolding ftp_PORT_def f Let_def by simp
  show ?thesis
    unfolding r asyncore_read_Inl
    by (simp add: port_arg_ok_def f session_closed_close)
qed

text \<open>
  C2, amended: for every argument of \<open>PORT\<close> with at least six fields whose fifth or sixth
  field \<open>int\<close> does not accept, the handler does nothing but reply
  \<open>501 Invalid PORT format.\<close> and returns. When nothing is queued on the control channel
  and the socket does not refuse the reply, the session is closed afterwards only if it was
  closed before, and it is connected as before. (A reply pushed behind a request to
  close, or refused by the socket, closes the session: \<open>respond_behind_close_request\<close>.)
\<close>

theorem C2_port_unparsable_port_field:
  assumes "6 \<le> length (split_chr CHR '','' line)"
    and "py_int (split_chr CHR '','' line ! 4) = None
         \<or> py_int (split_chr CHR '','' line ! 5) = None"
  shows "ftp_PORT cfg h s line = Inr (respond ''501 Invalid PORT format.'' s)
     \<and> asyncore_read (ftp_PORT cfg h s line) = respond ''501 Invalid PORT format.'' s
     \<and> replies (asyncore_read (ftp_PORT cfg h s line))
         = replies s @ [''501 Invalid PORT format.'' @ CRLF]
     \<and> (ctl_fifo s = []
          \<and> (\<exists>n. socket_send s (''501 Invalid PORT format.'' @ CRLF) = Sent n) \<longrightarrow>
        (session_closed (asyncore_read (ftp_PORT cfg h s line)) \<longleftrightarrow> session_closed s)
        \<and> (ctl_connected (asyncore_read (ftp_PORT cfg h s line)) \<longleftrightarrow> ctl_connected s))"
proof -
  have l4: "\<not> length (split_chr CHR '','' line) \<le> 4"
    and l5: "\<not> length (split_chr CHR '','' line) \<le> 5"
    using assms(1) by simp_all
  have r: "ftp_PORT cfg h s line = Inr (respond ''501 Invalid PORT format.'' s)"
  proof (cases "py_int (split_chr CHR '','' line ! 4)")
    case None
    then show ?thesis
      unfolding ftp_PORT_def Let_def using l4 by simp
  next
    case (Some p1)
    then have "py_int (split_chr CHR '','' line ! 5) = None"
      using assms(2) by simp
    then show ?thesis
      unfolding ftp_PORT_def Let_def using l4 l5 Some by simp
  qed
  have idle: "(session_closed (respond ''501 Invalid PORT format.'' s) \<longleftrightarrow> session_closed s)
        \<and> (ctl_connected (respond ''501 Invalid PORT format.'' s) \<longleftrightarrow> ctl_connected s)"
    if q: "ctl_fifo s = []"
      and n: "\<exists>n. socket_send s (''501 Invalid PORT format.'' @ CRLF) = Sent n"
  proof -
    obtain n where sn: "socket_send s (''501 Invalid PORT format.'' @ CRLF) = Sent n"
      using n by blast
    have len: "length (''501 Invalid PORT format.'' @ CRLF) \<le> ctl_out_buffer_size"
      by (simp add: CRLF_def ctl_out_buffer_size_def)
    have "trace (respond ''501 Invalid PORT format.'' s)
        = trace s @ [Push (''501 Invalid PORT format.'' @ CRLF)]"
      by (rule respond_idle(1) [OF q len sn])
    moreover have "ctl_connected (respond ''501 Invalid PORT format.'' s) = ctl_connected s"
      by (rule respond_idle(2) [OF q len sn])
    ultimately show ?thesis
      by (simp add: session_closed_def)
  qed
  show ?thesis
    unfolding r asyncore_read_Inr using idle by (simp add: replies_respond)
qed

theorem C2_port_unparsable_port_field_witness:
  "6 \<le> length (split_chr CHR '','' ''10,0,0,1,x,0'')
   \<and> py_int (split_chr CHR '','' ''10,0,0,1,x,0'' ! 4) = None
   \<and> ctl_fifo s0 = []
   \<and> socket_send s0 (''501 Invalid PORT format.'' @ CRLF) = Sent 26
   \<and> asyncore_read (ftp_PORT cfg0 host0 s0 ''10,0,0,1,x,0'')
       = respond ''501 Invalid PORT format.'' s0
   \<and> replies (asyncore_read (ftp_PORT cfg0 host0 s0 ''10,0,0,1,x,0''))
       = [''501 Invalid PORT format.'' @ CRLF]
   \<and> \<not> session_closed (asyncore_read (ftp_PORT cfg0 host0 s0 ''10,0,0,1,x,0''))
   \<and> ctl_connected (asyncore_read (ftp_PORT cfg0 host0 s0 ''10,0,0,1,x,0''))"
proof -
  have a: "6 \<le> length (split_chr CHR '','' ''10,0,0,1,x,0'')"
    by simp
  have b: "py_int (split_chr CHR '','' ''10,0,0,1,x,0'' ! 4) = None"
    by (simp add: int_defs)
  have c: "\<not> session_closed s0" "ctl_connected s0" "replies s0 = []"
    by (simp_all add: session_closed_def replies_def s0_def)
  have q: "ctl_fifo s0 = []"
    by (simp add: s0_def)
  have n: "socket_send s0 (''501 Invalid PORT format.'' @ CRLF) = Sent 26"
    by (simp add: s0_def CRLF_def)
  have d: "py_int (split_chr CHR '','' ''10,0,0,1,x,0'' ! 4) = None
         \<or> py_int (split_chr CHR '','' ''10,0,0,1,x,0'' ! 5) = None"
    using b by (rule disjI1)
  have n': "\<exists>n. socket_send s0 (''501 Invalid PORT format.'' @ CRLF) = Sent n"
    using n by blast
  from C2_port_unparsable_port_field [OF a d, where cfg = cfg0 and h = host0 and s = s0]
  have "asyncore_read (ftp_PORT cfg0 host0 s0 ''10,0,0,1,x,0'')
       = respond ''501 Invalid PORT format.'' s0
     \<and> replies (asyncore_read (ftp_PORT cfg0 host0 s0 ''10,0,0,1,x,0''))
         = replies s0 @ [''501 Invalid PORT format.'' @ CRLF]
     \<and> (session_closed (asyncore_read (ftp_PORT cfg0 host0 s0 ''10,0,0,1,x,0''))
          \<longleftrightarrow> session_closed s0)
     \<and> (ctl_connected (asyncore_read (ftp_PORT cfg0 host0 s0 ''10,0,0,1,x,0''))
          \<longleftrightarrow> ctl_connected s0)"
    using q n' by blast
  then have 1: "asyncore_read (ftp_PORT cfg0 host0 s0 ''10,0,0,1,x,0'')
       = respond ''501 Invalid PORT format.'' s0"
    and 2: "replies (asyncore_read (ftp_PORT cfg0 host0 s0 ''10,0,0,1,x,0''))
         = replies s0 @ [''501 Invalid PORT format.'' @ CRLF]"
    and 3: "\<not> session_closed (asyncore_read (ftp_PORT cfg0 host0 s0 ''10,0,0,1,x,0''))"
    and 4: "ctl_connected (asyncore_read (ftp_PORT cfg0 host0 s0 ''10,0,0,1,x,0''))"
    using c by blast+
  have r2: "replies (asyncore_read (ftp_PORT cfg0 host0 s0 ''10,0,0,1,x,0''))
         = [''501 Invalid PORT format.'' @ CRLF]"
    using 2 c(3) by simp
  show ?thesis
    using a b q n 1 r2 3 4 by blast
qed

subsection \<open>REIN\<close>

text \<open>
  C3, as stated: after \<open>REIN\<close> the session is unauthenticated, its working directory is
  \<open>/\<close>, its type ASCII, its restart position 0, its rename source cleared, and neither a
  data server nor a data channel is attached. \<open>flush_account\<close> closes the data channel only
  when no byte has moved on it: a channel that has sent 10 bytes is still attached after
  \<open>REIN\<close>. (Nor does \<open>flush_account\<close> touch the working directory, which stays \<open>/pub\<close>.)
\<close>

theorem C3_counterexample:
  "data_channel (ftp_REIN (s0\<lparr>data_channel := Some (DTPHandler\<lparr>tot_bytes_sent := 10\<rparr>)\<rparr>) [])
     = Some (DTPHandler\<lparr>tot_bytes_sent := 10\<rparr>)
   \<and> cwd (fs (ftp_REIN (s0\<lparr>fs := fs0\<lparr>cwd := ''/pub''\<rparr>\<rparr>) [])) = ''/pub''"
proof -
  define s1 where
    "s1 = flush_account (s0\<lparr>data_channel := Some (DTPHandler\<lparr>tot_bytes_sent := 10\<rparr>)\<rparr>)"
  have q: "ctl_fifo s1 = []"
    and n: "socket_send s1 (''230 Ready for new user.'' @ CRLF) = Sent 25"
    and c: "data_channel s1 = Some (DTPHandler\<lparr>tot_bytes_sent := 10\<rparr>)"
    by (simp_all add: s1_def flush_account_def s0_def DTPHandler_def transfer_in_progress_def
        get_transmitted_bytes_def Let_def CRLF_def)
  have len: "length (''230 Ready for new user.'' @ CRLF) \<le> ctl_out_buffer_size"
    by (simp add: CRLF_def ctl_out_buffer_size_def)
  have 1: "data_channel (respond ''230 Ready for new user.'' s1)
      = Some (DTPHandler\<lparr>tot_bytes_sent := 10\<rparr>)"
    using respond_idle(4) [OF q len n] c by simp
  have 2: "cwd (fs (ftp_REIN (s0\<lparr>fs := fs0\<lparr>cwd := ''/pub''\<rparr>\<rparr>) [])) = ''/pub''"
    by (simp add: ftp_REIN_def respond_fields flush_account_def Let_def s0_def
        split: option.splits)
  show ?thesis
    using 1 2 unfolding ftp_REIN_def s1_def by simp
qed

text \<open>
  A reply behind a request to close closes the session, and with it a data channel whose
  transfer is in progress: after a \<open>QUIT\<close> answered while no data channel was attached,
  a \<open>REIN\<close> leaves no data channel even when one has connected since and has moved bytes.
\<close>

lemma ftp_REIN_behind_close_request:
  "data_channel
     (ftp_REIN (s0\<lparr>ctl_fifo := [None],
                    data_channel := Some (DTPHandler\<lparr>tot_bytes_sent := 10\<rparr>)\<rparr>) []) = None
   \<and> session_closed
       (ftp_REIN (s0\<lparr>ctl_fifo := [None],
                      data_channel := Some (DTPHandler\<lparr>tot_bytes_sent := 10\<rparr>)\<rparr>) [])"
proof -
  define s1 where
    "s1 = flush_account (s0\<lparr>ctl_fifo := [None],
             data_channel := Some (DTPHandler\<lparr>tot_bytes_sent := 10\<rparr>)\<rparr>)"
  have q: "ctl_fifo s1 = None # []" and c: "ctl_connected s1"
    by (simp_all add: s1_def flush_account_def s0_def DTPHandler_def transfer_in_progress_def
        get_transmitted_bytes_def Let_def)
  show ?thesis
    using respond_behind_close_request(1,4) [OF c q]
    unfolding ftp_REIN_def s1_def by simp
qed

text \<open>
  C3, amended: after \<open>REIN\<close>, for every session, the session is unauthenticated with an
  empty user name, the type is ASCII, the restart position is 0, the rename source is
  cleared and no data server is attached. When the reply has not closed the session, a data
  channel is attached exactly when one was attached before with a transfer in progress,
  which is left to complete; when the reply has closed the session, none is. The one reply
  is \<open>230 Ready for new user.\<close>
\<close>

theorem C3_rein_resets_session:
  "\<not> authenticated (ftp_REIN s line)
   \<and> username (ftp_REIN s line) = []
   \<and> current_type (ftp_REIN s line) = ''a''
   \<and> restart_position (ftp_REIN s line) = 0
   \<and> rnfr (fs (ftp_REIN s line)) = None
   \<and> data_server (ftp_REIN s line) = None
   \<and> data_channel (ftp_REIN s line)
       = (if ctl_connected s \<and> \<not> ctl_connected (ftp_REIN s line) then None
          else (case data_channel s of
                  None \<Rightarrow> None
                | Some d \<Rightarrow> if transfer_in_progress d then Some d else None))
   \<and> replies (ftp_REIN s line) = replies s @ [''230 Ready for new user.'' @ CRLF]"
proof -
  have f: "\<not> authenticated (flush_account s)" "username (flush_account s) = []"
    "current_type (flush_account s) = ''a''" "restart_position (flush_account s) = 0"
    "rnfr (fs (flush_account s)) = None"
    by (simp_all add: flush_account_def Let_def)
  have srv: "data_server (flush_account s) = None"
    by (simp add: flush_account_def Let_def passive_close_def emit_def dtp_close_fields
        split: option.splits)
  have ch: "data_channel (flush_account s)
       = (case data_channel s of
            None \<Rightarrow> None
          | Some d \<Rightarrow> if transfer_in_progress d then Some d else None)"
    by (simp add: flush_account_def Let_def passive_close_def emit_def split: option.splits)
  have dc: "data_channel (ftp_REIN s line)
       = (if ctl_connected s \<and> \<not> ctl_connected (ftp_REIN s line) then None
          else (case data_channel s of
                  None \<Rightarrow> None
                | Some d \<Rightarrow> if transfer_in_progress d then Some d else None))"
    using respond_dtp [of "''230 Ready for new user.''" "flush_account s"]
    unfolding ftp_REIN_def ch flush_account_ctl by auto
  show ?thesis
    using f srv dc
    by (simp add: ftp_REIN_def replies_respond replies_flush_account respond_fields
        data_server_respond)
qed

theorem C3_rein_resets_session_witness:
  "\<not> authenticated (ftp_REIN (s0\<lparr>data_server := Some \<lparr>bound_port = 2121\<rparr>,
         data_channel := Some DTPHandler, restart_position := 7\<rparr>) [])
   \<and> restart_position (ftp_REIN (s0\<lparr>data_server := Some \<lparr>bound_port = 2121\<rparr>,
         data_channel := Some DTPHandler, restart_position := 7\<rparr>) []) = 0
   \<and> data_server (ftp_REIN (s0\<lparr>data_server := Some \<lparr>bound_port = 2121\<rparr>,
         data_channel := Some DTPHandler, restart_position := 7\<rparr>) []) = None
   \<and> data_channel (ftp_REIN (s0\<lparr>data_server := Some \<lparr>bound_port = 2121\<rparr>,
         data_channel := Some DTPHandler, restart_position := 7\<rparr>) []) = None"
  using C3_rein_resets_session [of "s0\<lparr>data_server := Some \<lparr>bound_port = 2121\<rparr>,
         data_channel := Some DTPHandler, restart_position := 7\<rparr>" "[]"]
  by (simp add: DTPHandler_def transfer_in_progress_def get_transmitted_bytes_def)

subsection \<open>RETR\<close>

text \<open>
  Once the file is open \<open>RETR\<close> leaves the restart position at 0, whether the offset is
  refused, the seek fails, the transfer starts or the reply that announces it has closed
  the session.
\<close>

lemma ftp_RETR_resets_after_open:
  assumes "r_perm h (username s) (ftp2fs (fs s) line)"
    and "open_rb h (ftp2fs (fs s) line) = Inr bytes"
    and "getsize h (ftp2fs (fs s) line) = Inr sz"
  shows "restart_position (asyncore_read (ftp_RETR h s line)) = 0"
proof (cases "restart_position s = 0")
  case True
  then show ?thesis
    using assms by (simp add: ftp_RETR_def Let_def restart_position_push_dtp_data)
next
  case False
  show ?thesis
  proof (cases "restart_position s > int sz")
    case True
    then show ?thesis
      using assms False by (simp add: ftp_RETR_def Let_def respond_fields asyncore_read_Inr)
  next
    case le: False
    show ?thesis
    proof (cases "seek_error h (ftp2fs (fs s) line) (restart_position s)")
      case None
      then show ?thesis
        using assms False le
        by (simp add: ftp_RETR_def Let_def restart_position_push_dtp_data)
    next
      case (Some why)
      then show ?thesis
        using assms False le
        by (simp add: ftp_RETR_def Let_def respond_fields asyncore_read_Inr)
    qed
  qed
qed

text \<open>
  When the authorizer denies the read, the handler raises before it replies: the session
  is closed without a reply, with the restart position it had.
\<close>

lemma ftp_RETR_permission_denied:
  assumes "\<not> r_perm h (username s) (ftp2fs (fs s) line)"
  shows "ftp_RETR h s line = Inl (TypeError, s)"
    and "session_closed (asyncore_read (ftp_RETR h s line))"
    and "replies (asyncore_read (ftp_RETR h s line)) = replies s"
    and "restart_position (asyncore_read (ftp_RETR h s line)) = restart_position s"
proof -
  show e: "ftp_RETR h s line = Inl (TypeError, s)"
    using assms by (simp add: ftp_RETR_def Let_def)
  show "session_closed (asyncore_read (ftp_RETR h s line))"
    and "replies (asyncore_read (ftp_RETR h s line)) = replies s"
    and "restart_position (asyncore_read (ftp_RETR h s line)) = restart_position s"
    unfolding e asyncore_read_Inl
    by (simp_all add: session_closed_close replies_close close_fields)
qed

text \<open>
  When the file cannot be opened the handler replies 550 with the message of the error and
  returns with the restart position it was given, for every session and every file.
\<close>

lemma ftp_RETR_open_failure:
  assumes "r_perm h (username s) (ftp2fs (fs s) line)"
    and "open_rb h (ftp2fs (fs s) line) = Inl why"
  shows "ftp_RETR h s line = Inr (respond (''550 '' @ why @ ''.'') s)"
    and "restart_position (asyncore_read (ftp_RETR h s line)) = restart_position s"
proof -
  show e: "ftp_RETR h s line = Inr (respond (''550 '' @ why @ ''.'') s)"
    using assms by (simp add: ftp_RETR_def Let_def)
  show "restart_position (asyncore_read (ftp_RETR h s line)) = restart_position s"
    unfolding e asyncore_read_Inr by (simp add: respond_fields)
qed

text \<open>
  C5. The claim: a \<open>RETR\<close> issued with a restart position above 0 leaves the restart
  position at 0 when the handler returns, on every outcome, the failure to open the file
  included. The code resets the position only after the file has been opened: when
  \<open>open\<close> fails the handler replies 550 and returns, and a restart position of 5 is
  still 5.
\<close>

theorem C5_retr_early_return_keeps_restart_position:
  "ftp_RETR (host0\<lparr>open_rb := (\<lambda>p. Inl ''No such file or directory'')\<rparr>)
         (s0\<lparr>restart_position := 5\<rparr>) ''f''
     = Inr (respond ''550 No such file or directory.'' (s0\<lparr>restart_position := 5\<rparr>))
   \<and> restart_position
         (respond ''550 No such file or directory.'' (s0\<lparr>restart_position := 5\<rparr>))
       = 5
   \<and> replies (respond ''550 No such file or directory.'' (s0\<lparr>restart_position := 5\<rparr>))
       = [''550 No such file or directory.'' @ CRLF]"
proof -
  have e: "ftp_RETR (host0\<lparr>open_rb := (\<lambda>p. Inl ''No such file or directory'')\<rparr>)
         (s0\<lparr>restart_position := 5\<rparr>) ''f''
     = Inr (respond ''550 No such file or directory.'' (s0\<lparr>restart_position := 5\<rparr>))"
    by (simp add: ftp_RETR_def host0_def Let_def)
  have r: "replies (s0\<lparr>restart_position := 5\<rparr>) = []"
    by (simp add: replies_def s0_def)
  show ?thesis
    unfolding e by (simp add: respond_fields replies_respond r)
qed

subsection \<open>ABOR\<close>

text \<open>
  C7, as stated: when a listening or connecting data server exists without a peer,
  \<open>ABOR\<close> closes it and replies \<open>225 ABOR command successful; data channel closed.\<close>
  The session keeps no reference to the \<open>ActiveDTP\<close> that \<open>PORT\<close> creates: while that
  one is connecting, \<open>ABOR\<close> finds neither a data server nor a data channel, closes
  nothing and replies \<open>225 No transfer to abort.\<close>
\<close>

theorem C7_counterexample:
  "asyncore_read (ftp_PORT cfg0 host0 s0 ''10,0,0,1,4,0'') = emit (Connect ''10.0.0.1'' 1024) s0
   \<and> trace (ftp_ABOR (emit (Connect ''10.0.0.1'' 1024) s0) [])
       = [Connect ''10.0.0.1'' 1024, Push (''225 No transfer to abort.'' @ CRLF)]
   \<and> replies (ftp_ABOR (emit (Connect ''10.0.0.1'' 1024) s0) [])
       = [''225 No transfer to abort.'' @ CRLF]
   \<and> replies (ftp_ABOR (emit (Connect ''10.0.0.1'' 1024) s0) [])
       \<noteq> [''225 ABOR command successful; data channel closed.'' @ CRLF]"
proof -
  have f: "split_chr CHR '','' ''10,0,0,1,4,0'' = [''10'', ''0'', ''0'', ''1'', ''4'', ''0'']"
    by simp
  have p1: "py_int ''4'' = Some 4" and p2: "py_int ''0'' = Some 0"
    by (simp_all add: int_defs)
  have ip: "replace_str '','' ''.''
        (join_str ''.'' (take 4 [''10'', ''0'', ''0'', ''1'', ''4'', ''0'']))
      = ''10.0.0.1''"
    by (simp add: startswith_def)
  have r: "ftp_PORT cfg0 host0 s0 ''10,0,0,1,4,0'' = Inr (emit (Connect ''10.0.0.1'' 1024) s0)"
    unfolding ftp_PORT_def f Let_def ip
    by (simp add: p1 p2 cfg0_def s0_def host0_def ActiveDTP_def emit_def)
  define s1 where "s1 = emit (Connect ''10.0.0.1'' 1024) s0"
  have n: "data_server s1 = None" "data_channel s1 = None" "ctl_fifo s1 = []"
    "trace s1 = [Connect ''10.0.0.1'' 1024]"
    "socket_send s1 (''225 No transfer to abort.'' @ CRLF) = Sent 27"
    by (simp_all add: s1_def emit_def s0_def CRLF_def)
  have len: "length (''225 No transfer to abort.'' @ CRLF) \<le> ctl_out_buffer_size"
    by (simp add: CRLF_def ctl_out_buffer_size_def)
  have a: "ftp_ABOR s1 [] = respond ''225 No transfer to abort.'' s1"
    using n(1,2) by (simp add: ftp_ABOR_def)
  have t: "trace (ftp_ABOR s1 [])
      = [Connect ''10.0.0.1'' 1024, Push (''225 No transfer to abort.'' @ CRLF)]"
    unfolding a using respond_idle(1) [OF n(3) len n(5)] n(4) by simp
  have rp: "replies (ftp_ABOR s1 []) = [''225 No transfer to abort.'' @ CRLF]"
    unfolding replies_def t by simp
  have ne: "replies (ftp_ABOR s1 [])
      \<noteq> [''225 ABOR command successful; data channel closed.'' @ CRLF]"
    unfolding rp by simp
  show ?thesis
    using t rp ne unfolding r asyncore_read_Inr s1_def by simp
qed

text \<open>
  The session after the handler has closed the passive listener, if there is one, and then
  the data channel.
\<close>

lemma ftp_ABOR_with_channel:
  assumes "data_channel s = Some d"
  shows "\<exists>sc. ftp_ABOR s line
           = (if transfer_in_progress d
              then respond ''226 ABOR command successful.''
                     (respond ''426 Connection closed; transfer aborted.'' sc)
              else respond ''225 ABOR command successful; data channel closed.'' sc)
         \<and> trace sc
             = trace s @ (if data_server s = None then [] else [Close_data_server])
                 @ Close_data_channel # (if quit_pending s then [Close_when_done] else [])
         \<and> data_server sc = None \<and> data_channel sc = None"
proof -
  define s1 where
    "s1 = (case data_server s of
             Some srv \<Rightarrow> (passive_close s)\<lparr>data_server := None\<rparr>
           | None \<Rightarrow> s)"
  define sc where "sc = (dtp_close s1)\<lparr>data_channel := None\<rparr>"
  have s1: "data_channel s1 = Some d" "data_server s1 = None"
    "quit_pending s1 = quit_pending s"
    "trace s1 = trace s @ (if data_server s = None then [] else [Close_data_server])"
    by (simp_all add: s1_def passive_close_def emit_def assms split: option.splits)
  have a: "ftp_ABOR s line
           = (if transfer_in_progress d
              then respond ''226 ABOR command successful.''
                     (respond ''426 Connection closed; transfer aborted.'' sc)
              else respond ''225 ABOR command successful; data channel closed.'' sc)"
    using assms s1(1)
    by (cases "data_server s")
       (simp_all add: ftp_ABOR_def Let_def sc_def s1_def passive_close_fields)
  have t: "trace sc
             = trace s @ (if data_server s = None then [] else [Close_data_server])
                 @ Close_data_channel # (if quit_pending s then [Close_when_done] else [])"
    by (simp add: sc_def trace_dtp_close s1)
  have f: "data_server sc = None" "data_channel sc = None"
    by (simp_all add: sc_def dtp_close_fields s1)
  show ?thesis
    using a t f by blast
qed

text \<open>
  C7, amended. \<open>ABOR\<close> by cases, for every session; the replies are what the handler hands
  to the control channel, in order. With neither a data server nor a data channel the
  handler only replies \<open>225 No transfer to abort.\<close> With a passive listener and no data
  channel the listener is closed and then \<open>225 ABOR command successful; data channel
  closed.\<close> is replied. With a data channel that has moved at least one byte the channel
  (and the listener, if any) is closed, then \<open>426 Connection closed; transfer aborted.\<close>
  and \<open>226 ABOR command successful.\<close> are replied in this order. With a data channel that
  has moved no byte the channel is closed and the reply is
  \<open>225 ABOR command successful; data channel closed.\<close> In the last three cases neither a
  listener nor a data channel is attached afterwards. (Closing the channel also queues the
  request to close the control channel when a \<open>QUIT\<close> is pending, so that the replies that
  follow may close the session.)
\<close>

theorem C7_abor_replies:
  "(data_server s = None \<and> data_channel s = None \<longrightarrow>
      ftp_ABOR s line = respond ''225 No transfer to abort.'' s
      \<and> replies (ftp_ABOR s line) = replies s @ [''225 No transfer to abort.'' @ CRLF])
   \<and> (data_server s = Some srv \<and> data_channel s = None \<longrightarrow>
      (\<exists>sc. ftp_ABOR s line
               = respond ''225 ABOR command successful; data channel closed.'' sc
             \<and> trace sc = trace s @ [Close_data_server]
             \<and> data_server sc = None \<and> data_channel sc = None)
      \<and> replies (ftp_ABOR s line)
          = replies s @ [''225 ABOR command successful; data channel closed.'' @ CRLF]
      \<and> data_server (ftp_ABOR s line) = None
      \<and> data_channel (ftp_ABOR s line) = None)
   \<and> (data_channel s = Some d \<and> 1 \<le> tot_bytes_sent d + tot_bytes_received d \<longrightarrow>
      (\<exists>sc. ftp_ABOR s line
               = respond ''226 ABOR command successful.''
                   (respond ''426 Connection closed; transfer aborted.'' sc)
             \<and> trace sc
                 = trace s @ (if data_server s = None then [] else [Close_data_server])
                     @ Close_data_channel
                     # (if quit_pending s then [Close_when_done] else [])
             \<and> data_server sc = None \<and> data_channel sc = None)
      \<and> replies (ftp_ABOR s line)
          = replies s @ [''426 Connection closed; transfer aborted.'' @ CRLF,
                         ''226 ABOR command successful.'' @ CRLF]
      \<and> data_server (ftp_ABOR s line) = None
      \<and> data_channel (ftp_ABOR s line) = None)
   \<and> (data_channel s = Some d \<and> tot_bytes_sent d + tot_bytes_received d = 0 \<longrightarrow>
      (\<exists>sc. ftp_ABOR s line
               = respond ''225 ABOR command successful; data channel closed.'' sc
             \<and> trace sc
                 = trace s @ (if data_server s = None then [] else [Close_data_server])
                     @ Close_data_channel
                     # (if quit_pending s then [Close_when_done] else [])
             \<and> data_server sc = None \<and> data_channel sc = None)
      \<and> replies (ftp_ABOR s line)
          = replies s @ [''225 ABOR command successful; data channel closed.'' @ CRLF]
      \<and> data_server (ftp_ABOR s line) = None
      \<and> data_channel (ftp_ABOR s line) = None)"
proof (intro conjI impI)
  assume a: "data_server s = None \<and> data_channel s = None"
  then show e: "ftp_ABOR s line = respond ''225 No transfer to abort.'' s"
    by (simp add: ftp_ABOR_def)
  show "replies (ftp_ABOR s line) = replies s @ [''225 No transfer to abort.'' @ CRLF]"
    unfolding e by (rule replies_respond)
next
  assume a: "data_server s = Some srv \<and> data_channel s = None"
  define sc where "sc = (passive_close s)\<lparr>data_server := None\<rparr>"
  have e: "ftp_ABOR s line = respond ''225 ABOR command successful; data channel closed.'' sc"
    using a by (simp add: ftp_ABOR_def sc_def passive_close_fields)
  have t: "trace sc = trace s @ [Close_data_server]"
    and f: "data_server sc = None" "data_channel sc = None"
    using a by (simp_all add: sc_def passive_close_def emit_def)
  show "\<exists>sc. ftp_ABOR s line
               = respond ''225 ABOR command successful; data channel closed.'' sc
             \<and> trace sc = trace s @ [Close_data_server]
             \<and> data_server sc = None \<and> data_channel sc = None"
    using e t f by blast
  show "replies (ftp_ABOR s line)
          = replies s @ [''225 ABOR command successful; data channel closed.'' @ CRLF]"
    unfolding e replies_respond by (simp add: replies_def t pushed_append)
  show "data_server (ftp_ABOR s line) = None"
    unfolding e using f by (simp add: data_server_respond)
  show "data_channel (ftp_ABOR s line) = None"
    unfolding e using f by (simp add: data_channel_respond)
next
  assume a: "data_channel s = Some d \<and> 1 \<le> tot_bytes_sent d + tot_bytes_received d"
  then have tip: "transfer_in_progress d"
    unfolding transfer_in_progress_def get_transmitted_bytes_def by arith
  obtain sc where e: "ftp_ABOR s line
               = respond ''226 ABOR command successful.''
                   (respond ''426 Connection closed; transfer aborted.'' sc)"
    and t: "trace sc
                 = trace s @ (if data_server s = None then [] else [Close_data_server])
                     @ Close_data_channel
                     # (if quit_pending s then [Close_when_done] else [])"
    and f: "data_server sc = None" "data_channel sc = None"
    using ftp_ABOR_with_channel [of s d line] a tip by auto
  show "\<exists>sc. ftp_ABOR s line
               = respond ''226 ABOR command successful.''
                   (respond ''426 Connection closed; transfer aborted.'' sc)
             \<and> trace sc
                 = trace s @ (if data_server s = None then [] else [Close_data_server])
                     @ Close_data_channel
                     # (if quit_pending s then [Close_when_done] else [])
             \<and> data_server sc = None \<and> data_channel sc = None"
    using e t f by blast
  show "replies (ftp_ABOR s line)
          = replies s @ [''426 Connection closed; transfer aborted.'' @ CRLF,
                         ''226 ABOR command successful.'' @ CRLF]"
    unfolding e replies_respond by (simp add: replies_def t pushed_append)
  show "data_server (ftp_ABOR s line) = None"
    unfolding e using f by (simp add: data_server_respond)
  show "data_channel (ftp_ABOR s line) = None"
    unfolding e using f by (simp add: data_channel_respond)
next
  assume a: "data_channel s = Some d \<and> tot_bytes_sent d + tot_bytes_received d = 0"
  then have tip: "\<not> transfer_in_progress d"
    by (simp add: transfer_in_progress_def get_transmitted_bytes_def)
  obtain sc where e: "ftp_ABOR s line
               = respond ''225 ABOR command successful; data channel closed.'' sc"
    and t: "trace sc
                 = trace s @ (if data_server s = None then [] else [Close_data_server])
                     @ Close_data_channel
                     # (if quit_pending s then [Close_when_done] else [])"
    and f: "data_server sc = None" "data_channel sc = None"
    using ftp_ABOR_with_channel [of s d line] a tip by auto
  show "\<exists>sc. ftp_ABOR s line
               = respond ''225 ABOR command successful; data channel closed.'' sc
             \<and> trace sc
                 = trace s @ (if data_server s = None then [] else [Close_data_server])
                     @ Close_data_channel
                     # (if quit_pending s then [Close_when_done] else [])
             \<and> data_server sc = None \<and> data_channel sc = None"
    using e t f by blast
  show "replies (ftp_ABOR s line)
          = replies s @ [''225 ABOR command successful; data channel closed.'' @ CRLF]"
    unfolding e replies_respond by (simp add: replies_def t pushed_append)
  show "data_server (ftp_ABOR s line) = None"
    unfolding e using f by (simp add: data_server_respond)
  show "data_channel (ftp_ABOR s line) = None"
    unfolding e using f by (simp add: data_channel_respond)
qed

theorem C7_abor_replies_witness:
  "data_server s0 = None \<and> data_channel s0 = None
   \<and> replies (ftp_ABOR s0 []) = [''225 No transfer to abort.'' @ CRLF]
   \<and> data_server (s0\<lparr>data_server := Some \<lparr>bound_port = 2121\<rparr>\<rparr>) = Some \<lparr>bound_port = 2121\<rparr>
   \<and> replies (ftp_ABOR (s0\<lparr>data_server := Some \<lparr>bound_port = 2121\<rparr>\<rparr>) [])
       = [''225 ABOR command successful; data channel closed.'' @ CRLF]
   \<and> data_server (ftp_ABOR (s0\<lparr>data_server := Some \<lparr>bound_port = 2121\<rparr>\<rparr>) []) = None
   \<and> 1 \<le> tot_bytes_sent (DTPHandler\<lparr>tot_bytes_sent := 10\<rparr>)
          + tot_bytes_received (DTPHandler\<lparr>tot_bytes_sent := 10\<rparr>)
   \<and> replies (ftp_ABOR (s0\<lparr>data_channel := Some (DTPHandler\<lparr>tot_bytes_sent := 10\<rparr>)\<rparr>) [])
       = [''426 Connection closed; transfer aborted.'' @ CRLF,
          ''226 ABOR command successful.'' @ CRLF]
   \<and> data_channel
         (ftp_ABOR (s0\<lparr>data_channel := Some (DTPHandler\<lparr>tot_bytes_sent := 10\<rparr>)\<rparr>) []) = None
   \<and> tot_bytes_sent DTPHandler + tot_bytes_received DTPHandler = 0
   \<and> replies (ftp_ABOR (s0\<lparr>data_channel := Some DTPHandler\<rparr>) [])
       = [''225 ABOR command successful; data channel closed.'' @ CRLF]
   \<and> data_channel (ftp_ABOR (s0\<lparr>data_channel := Some DTPHandler\<rparr>) []) = None"
proof -
  have h1: "data_server s0 = None \<and> data_channel s0 = None"
    by (simp add: s0_def)
  have h2: "data_server (s0\<lparr>data_server := Some \<lparr>bound_port = 2121\<rparr>\<rparr>)
        = Some \<lparr>bound_port = 2121\<rparr>
      \<and> data_channel (s0\<lparr>data_server := Some \<lparr>bound_port = 2121\<rparr>\<rparr>) = None"
    by (simp add: s0_def)
  have h3: "data_channel (s0\<lparr>data_channel := Some (DTPHandler\<lparr>tot_bytes_sent := 10\<rparr>)\<rparr>)
        = Some (DTPHandler\<lparr>tot_bytes_sent := 10\<rparr>)
      \<and> 1 \<le> tot_bytes_sent (DTPHandler\<lparr>tot_bytes_sent := 10\<rparr>)
             + tot_bytes_received (DTPHandler\<lparr>tot_bytes_sent := 10\<rparr>)"
    by (simp add: DTPHandler_def)
  have h4: "data_channel (s0\<lparr>data_channel := Some DTPHandler\<rparr>) = Some DTPHandler
      \<and> tot_bytes_sent DTPHandler + tot_bytes_received DTPHandler = 0"
    by (simp add: DTPHandler_def)
  have r0: "replies s0 = []"
    "replies (s0\<lparr>data_server := Some \<lparr>bound_port = 2121\<rparr>\<rparr>) = []"
    "replies (s0\<lparr>data_channel := Some (DTPHandler\<lparr>tot_bytes_sent := 10\<rparr>)\<rparr>) = []"
    "replies (s0\<lparr>data_channel := Some DTPHandler\<rparr>) = []"
    by (simp_all add: replies_def s0_def)
  have 1: "replies (ftp_ABOR s0 []) = replies s0 @ [''225 No transfer to abort.'' @ CRLF]"
    using C7_abor_replies [where s = s0 and line = "[]"] h1 by blast
  have 2: "replies (ftp_ABOR (s0\<lparr>data_server := Some \<lparr>bound_port = 2121\<rparr>\<rparr>) [])
        = replies (s0\<lparr>data_server := Some \<lparr>bound_port = 2121\<rparr>\<rparr>)
            @ [''225 ABOR command successful; data channel closed.'' @ CRLF]
      \<and> data_server (ftp_ABOR (s0\<lparr>data_server := Some \<lparr>bound_port = 2121\<rparr>\<rparr>) []) = None"
    using C7_abor_replies [where s = "s0\<lparr>data_server := Some \<lparr>bound_port = 2121\<rparr>\<rparr>"
      and line = "[]" and srv = "\<lparr>bound_port = 2121\<rparr>"] h2 by blast
  have 3: "replies (ftp_ABOR (s0\<lparr>data_channel := Some (DTPHandler\<lparr>tot_bytes_sent := 10\<rparr>)\<rparr>) [])
        = replies (s0\<lparr>data_channel := Some (DTPHandler\<lparr>tot_bytes_sent := 10\<rparr>)\<rparr>)
            @ [''426 Connection closed; transfer aborted.'' @ CRLF,
               ''226 ABOR command successful.'' @ CRLF]
      \<and> data_channel
          (ftp_ABOR (s0\<lparr>data_channel := Some (DTPHandler\<lparr>tot_bytes_sent := 10\<rparr>)\<rparr>) []) = None"
    using C7_abor_replies [where s = "s0\<lparr>data_channel := Some (DTPHandler\<lparr>tot_bytes_sent := 10\<rparr>)\<rparr>"
      and line = "[]" and d = "DTPHandler\<lparr>tot_bytes_sent := 10\<rparr>"] h3 by blast
  have 4: "replies (ftp_ABOR (s0\<lparr>data_channel := Some DTPHandler\<rparr>) [])
        = replies (s0\<lparr>data_channel := Some DTPHandler\<rparr>)
            @ [''225 ABOR command successful; data channel closed.'' @ CRLF]
      \<and> data_channel (ftp_ABOR (s0\<lparr>data_channel := Some DTPHandler\<rparr>) []) = None"
    using C7_abor_replies [where s = "s0\<lparr>data_channel := Some DTPHandler\<rparr>"
      and line = "[]" and d = DTPHandler] h4 by blast
  show ?thesis
    using h1 h2 h3 h4 1 2 3 4 unfolding r0 by simp
qed

text \<open>
  With a \<open>QUIT\<close> pending and nothing else queued, closing the data channel queues the
  request to close the control channel, and the reply 426 that follows closes the session
  before 226 is handed over.
\<close>

lemma ftp_ABOR_quit_pending:
  "trace (ftp_ABOR (s0\<lparr>quit_pending := True,
                       data_channel := Some (DTPHandler\<lparr>tot_bytes_sent := 10\<rparr>)\<rparr>) [])
     = [Close_data_channel, Close_when_done,
        Push (''426 Connection closed; transfer aborted.'' @ CRLF), Close_control,
        Push (''226 ABOR command successful.'' @ CRLF)]"
  by (simp add: ftp_ABOR_def s0_def DTPHandler_def transfer_in_progress_def
      get_transmitted_bytes_def dtp_close_def on_dtp_close_def close_when_done_def emit_def
      respond_def push_def ctl_initiate_send_def handle_close_def close_def
      ctl_out_buffer_size_def CRLF_def Let_def)

subsection \<open>USER\<close>

text \<open>
  C8, as stated: every \<open>USER\<close>, in every state of the session, is answered
  \<open>331 Username ok, send password.\<close> For a session that is logged in the reply has another
  text.
\<close>

theorem C8_counterexample:
  "authenticated s0
   \<and> replies (ftp_USER s0 ''alice'')
       = [''331 Previous account information was flushed, send password.'' @ CRLF]
   \<and> replies (ftp_USER s0 ''alice'') \<noteq> [''331 Username ok, send password.'' @ CRLF]"
proof -
  have a: "authenticated s0"
    by (simp add: s0_def)
  have r0: "replies s0 = []"
    by (simp add: replies_def s0_def)
  have e: "ftp_USER s0 ''alice''
      = (respond ''331 Previous account information was flushed, send password.''
           (flush_account s0))
          \<lparr>username := (if lower ''alice'' = ''anonymous'' then ''anonymous'' else ''alice'')\<rparr>"
    using a by (simp add: ftp_USER_def Let_def)
  have r: "replies (ftp_USER s0 ''alice'')
      = [''331 Previous account information was flushed, send password.'' @ CRLF]"
    unfolding e
    using replies_respond [of "''331 Previous account information was flushed, send password.''"
        "flush_account s0"]
    by (simp add: replies_def replies_flush_account [unfolded replies_def] r0 [unfolded replies_def])
  show ?thesis
    using a unfolding r by simp
qed

text \<open>
  C8, amended: every \<open>USER\<close> is answered with one reply of code 331. When the session is
  not authenticated the reply is \<open>331 Username ok, send password.\<close> When it is
  authenticated the account is flushed first and the reply is
  \<open>331 Previous account information was flushed, send password.\<close> In both cases the user
  name given is stored afterwards, \<open>anonymous\<close> in lower case whatever its case.
\<close>

theorem C8_user_replies:
  "(\<not> authenticated s \<longrightarrow>
      replies (ftp_USER s line) = replies s @ [''331 Username ok, send password.'' @ CRLF]
      \<and> ftp_USER s line
          = (respond ''331 Username ok, send password.'' s)
              \<lparr>username := (if lower line = ''anonymous'' then ''anonymous'' else line)\<rparr>)
   \<and> (authenticated s \<longrightarrow>
      replies (ftp_USER s line)
        = replies s
            @ [''331 Previous account information was flushed, send password.'' @ CRLF]
      \<and> ftp_USER s line
          = (respond ''331 Previous account information was flushed, send password.''
               (flush_account s))
              \<lparr>username := (if lower line = ''anonymous'' then ''anonymous'' else line)\<rparr>
      \<and> \<not> authenticated (ftp_USER s line))"
proof (intro conjI impI)
  assume a: "\<not> authenticated s"
  show e: "ftp_USER s line
          = (respond ''331 Username ok, send password.'' s)
              \<lparr>username := (if lower line = ''anonymous'' then ''anonymous'' else line)\<rparr>"
    using a by (simp add: ftp_USER_def Let_def)
  show "replies (ftp_USER s line) = replies s @ [''331 Username ok, send password.'' @ CRLF]"
    unfolding e using replies_respond [of "''331 Username ok, send password.''" s]
    by (simp add: replies_def)
next
  assume a: "authenticated s"
  show e: "ftp_USER s line
          = (respond ''331 Previous account information was flushed, send password.''
               (flush_account s))
              \<lparr>username := (if lower line = ''anonymous'' then ''anonymous'' else line)\<rparr>"
    using a by (simp add: ftp_USER_def Let_def)
  show "replies (ftp_USER s line)
        = replies s
            @ [''331 Previous account information was flushed, send password.'' @ CRLF]"
    unfolding e
    using replies_respond [of "''331 Previous account information was flushed, send password.''"
        "flush_account s"]
    by (simp add: replies_def replies_flush_account [unfolded replies_def])
  show "\<not> authenticated (ftp_USER s line)"
    unfolding e by (simp add: respond_fields flush_account_def Let_def)
qed

theorem C8_user_replies_witness:
  "\<not> authenticated (s0\<lparr>authenticated := False\<rparr>)
   \<and> replies (ftp_USER (s0\<lparr>authenticated := False\<rparr>) ''alice'')
       = [''331 Username ok, send password.'' @ CRLF]
   \<and> authenticated s0
   \<and> replies (ftp_USER s0 ''alice'')
       = [''331 Previous account information was flushed, send password.'' @ CRLF]
   \<and> \<not> authenticated (ftp_USER s0 ''alice'')"
proof -
  have n: "\<not> authenticated (s0\<lparr>authenticated := False\<rparr>)"
    by simp
  have y: "authenticated s0"
    by (simp add: s0_def)
  have r0: "replies s0 = []" "replies (s0\<lparr>authenticated := False\<rparr>) = []"
    by (simp_all add: s0_def replies_def)
  have 1: "replies (ftp_USER (s0\<lparr>authenticated := False\<rparr>) ''alice'')
      = replies (s0\<lparr>authenticated := False\<rparr>) @ [''331 Username ok, send password.'' @ CRLF]"
    using C8_user_replies [of "s0\<lparr>authenticated := False\<rparr>" "''alice''"] n by blast
  have 2: "replies (ftp_USER s0 ''alice'')
      = replies s0 @ [''331 Previous account information was flushed, send password.'' @ CRLF]
      \<and> \<not> authenticated (ftp_USER s0 ''alice'')"
    using C8_user_replies [of s0 "''alice''"] y by blast
  show ?thesis
    using 1 2 n y unfolding r0 by simp
qed

subsection \<open>MLSD\<close>

text \<open>Whatever the directory and the error, a failing \<open>listdir\<close> ends the session.\<close>

lemma ftp_MLSD_listdir_failure:
  assumes "isdir h (ftp2fs (fs s) (if line = [] then cwd (fs s) else line))"
    and "listdir h (ftp2fs (fs s) (if line = [] then cwd (fs s) else line)) = Inl why"
  shows "ftp_MLSD h s line = Inl (NameError ''_str'', s)"
    and "session_closed (asyncore_read (ftp_MLSD h s line))"
proof -
  show e: "ftp_MLSD h s line = Inl (NameError ''_str'', s)"
    using assms by (simp add: ftp_MLSD_def Let_def)
  show "session_closed (asyncore_read (ftp_MLSD h s line))"
    unfolding e asyncore_read_Inl by (rule session_closed_close)
qed

text \<open>
  C9. The claim: when \<open>MLSD\<close> names an existing directory and listing it fails, the server
  replies 550 with the message of the operating system and the session goes on. In the
  code the failure of \<open>listdir\<close> ends in a \<open>NameError\<close>: nothing is replied, the exception
  leaves the handler and the session is closed.
\<close>

theorem C9_mlsd_listdir_failure:
  "ftp_MLSD (host0\<lparr>listdir := (\<lambda>p. Inl ''Permission denied'')\<rparr>) s0 ''/''
     = Inl (NameError ''_str'', s0)
   \<and> session_closed
         (asyncore_read
            (ftp_MLSD (host0\<lparr>listdir := (\<lambda>p. Inl ''Permission denied'')\<rparr>) s0 ''/''))
   \<and> replies
         (asyncore_read
            (ftp_MLSD (host0\<lparr>listdir := (\<lambda>p. Inl ''Permission denied'')\<rparr>) s0 ''/''))
       = []"
proof -
  have e: "ftp_MLSD (host0\<lparr>listdir := (\<lambda>p. Inl ''Permission denied'')\<rparr>) s0 ''/''
     = Inl (NameError ''_str'', s0)"
    by (simp add: ftp_MLSD_def host0_def Let_def)
  have r0: "replies s0 = []"
    by (simp add: replies_def s0_def)
  show ?thesis
    unfolding e asyncore_read_Inl by (simp add: session_closed_close replies_close r0)
qed

section \<open>The dispatcher\<close>

lemma arg_cmds_proto: "set arg_cmds \<subseteq> set proto_cmds"
  by (simp add: arg_cmds_def proto_cmds_def)

lemma unarg_cmds_proto: "set unarg_cmds \<subseteq> set proto_cmds"
  by (simp add: unarg_cmds_def proto_cmds_def)

lemma dispatch_unrecognized:
  assumes "authenticated s" and "cmd_of line \<notin> set proto_cmds"
  shows "dispatch h s line
     = (if contains (cmd_of line) ''ABOR'' then Call ''ABOR'' []
        else if contains (cmd_of line) ''STAT'' then Call ''STAT'' []
        else Not_understood line)"
proof -
  have "cmd_of line \<notin> set arg_cmds" "cmd_of line \<notin> set unarg_cmds"
    using assms(2) arg_cmds_proto unarg_cmds_proto by auto
  then show ?thesis
    using assms by (simp add: dispatch_def Let_def)
qed

lemma dispatch_recognized:
  assumes "authenticated s" and "cmd_of line \<in> set proto_cmds"
  shows "dispatch h s line \<noteq> Not_understood l"
  using assms by (simp add: dispatch_def Let_def)

text \<open>
  The call the dispatcher decides on is the call \<open>found_terminator\<close> makes, on the session
  with its input buffer emptied.
\<close>

lemma found_terminator_call:
  "dispatch h s (concat (in_buffer s)) = Call cmd arg \<Longrightarrow>
   found_terminator methods h s = methods cmd (s\<lparr>in_buffer := [], in_buffer_len := 0\<rparr>) arg"
proof -
  have "dispatch h (s\<lparr>in_buffer := [], in_buffer_len := 0\<rparr>) (concat (in_buffer s))
      = dispatch h s (concat (in_buffer s))"
    by (simp add: dispatch_def Let_def cong: if_cong)
  then show "dispatch h s (concat (in_buffer s)) = Call cmd arg \<Longrightarrow>
   found_terminator methods h s = methods cmd (s\<lparr>in_buffer := [], in_buffer_len := 0\<rparr>) arg"
    by (simp add: found_terminator_def Let_def)
qed

lemma found_terminator_not_understood:
  "dispatch h s (concat (in_buffer s)) = Not_understood l \<Longrightarrow>
   found_terminator methods h s
     = Inr (respond (''500 Command '' @ DQUOTE # l @ DQUOTE # '' not understood.'')
              (s\<lparr>in_buffer := [], in_buffer_len := 0\<rparr>))"
proof -
  have "dispatch h (s\<lparr>in_buffer := [], in_buffer_len := 0\<rparr>) (concat (in_buffer s))
      = dispatch h s (concat (in_buffer s))"
    by (simp add: dispatch_def Let_def cong: if_cong)
  then show "dispatch h s (concat (in_buffer s)) = Not_understood l \<Longrightarrow>
   found_terminator methods h s
     = Inr (respond (''500 Command '' @ DQUOTE # l @ DQUOTE # '' not understood.'')
              (s\<lparr>in_buffer := [], in_buffer_len := 0\<rparr>))"
    by (simp add: found_terminator_def cmd_not_understood_def Let_def)
qed

text \<open>
  C10, as stated: in an authenticated session a line whose first word, in upper case, is no
  command but contains \<open>ABOR\<close> goes to the \<open>ABOR\<close> handler, and one that contains
  \<open>STAT\<close> goes to the \<open>STAT\<close> handler. The test for \<open>ABOR\<close> comes first: the word
  \<open>XSTATABOR\<close> contains \<open>STAT\<close> and goes to the \<open>ABOR\<close> handler.
\<close>

theorem C10_counterexample:
  "authenticated s0
   \<and> cmd_of ''xstatabor'' \<notin> set proto_cmds
   \<and> contains (cmd_of ''xstatabor'') ''STAT''
   \<and> dispatch host0 s0 ''xstatabor'' = Call ''ABOR'' []
   \<and> dispatch host0 s0 ''xstatabor'' \<noteq> Call ''STAT'' []"
proof -
  have c: "cmd_of ''xstatabor'' = ''XSTATABOR''"
    unfolding cmd_of_def by code_simp
  have a: "authenticated s0"
    by (simp add: s0_def)
  have n: "cmd_of ''xstatabor'' \<notin> set proto_cmds"
    unfolding c by (simp add: proto_cmds_def)
  have st: "contains ''XSTATABOR'' ''STAT''" and ab: "contains ''XSTATABOR'' ''ABOR''"
    by (simp_all add: startswith_def)
  show ?thesis
    using a n st ab dispatch_unrecognized [OF a n, of host0] unfolding c by simp
qed

text \<open>
  C10, amended: in an authenticated session, for a line whose first word in upper case is
  not a command, the dispatcher calls the \<open>ABOR\<close> handler with an empty argument when the
  word contains \<open>ABOR\<close>, the \<open>STAT\<close> handler with an empty argument when it contains
  \<open>STAT\<close> and not \<open>ABOR\<close>, and answers that the line is not understood (code 500, by
  \<open>found_terminator_not_understood\<close>) when it contains neither; and no other line of an
  authenticated session gets that answer from the dispatcher.
\<close>

theorem C10_special_semantics:
  assumes "authenticated s"
  shows "(cmd_of line \<notin> set proto_cmds \<and> contains (cmd_of line) ''ABOR'' \<longrightarrow>
            dispatch h s line = Call ''ABOR'' [])
       \<and> (cmd_of line \<notin> set proto_cmds \<and> \<not> contains (cmd_of line) ''ABOR''
          \<and> contains (cmd_of line) ''STAT'' \<longrightarrow>
            dispatch h s line = Call ''STAT'' [])
       \<and> (cmd_of line \<notin> set proto_cmds \<and> \<not> contains (cmd_of line) ''ABOR''
          \<and> \<not> contains (cmd_of line) ''STAT'' \<longrightarrow>
            dispatch h s line = Not_understood line)
       \<and> (\<forall>l. dispatch h s line = Not_understood l \<longrightarrow>
            l = line \<and> cmd_of line \<notin> set proto_cmds
            \<and> \<not> contains (cmd_of line) ''ABOR'' \<and> \<not> contains (cmd_of line) ''STAT'')"
proof (intro conjI impI allI)
  assume "cmd_of line \<notin> set proto_cmds \<and> contains (cmd_of line) ''ABOR''"
  then show "dispatch h s line = Call ''ABOR'' []"
    using dispatch_unrecognized [OF assms, of line h] by simp
next
  assume "cmd_of line \<notin> set proto_cmds \<and> \<not> contains (cmd_of line) ''ABOR''
          \<and> contains (cmd_of line) ''STAT''"
  then show "dispatch h s line = Call ''STAT'' []"
    using dispatch_unrecognized [OF assms, of line h] by simp
next
  assume "cmd_of line \<notin> set proto_cmds \<and> \<not> contains (cmd_of line) ''ABOR''
          \<and> \<not> contains (cmd_of line) ''STAT''"
  then show "dispatch h s line = Not_understood line"
    using dispatch_unrecognized [OF assms, of line h] by simp
next
  fix l
  assume d: "dispatch h s line = Not_understood l"
  have n: "cmd_of line \<notin> set proto_cmds"
    using d dispatch_recognized [OF assms, of line h l] by blast
  have e: "dispatch h s line
     = (if contains (cmd_of line) ''ABOR'' then Call ''ABOR'' []
        else if contains (cmd_of line) ''STAT'' then Call ''STAT'' []
        else Not_understood line)"
    by (rule dispatch_unrecognized [OF assms n])
  show "l = line" "cmd_of line \<notin> set proto_cmds"
    "\<not> contains (cmd_of line) ''ABOR''" "\<not> contains (cmd_of line) ''STAT''"
    using d n e by (auto split: if_splits)
qed

theorem C10_special_semantics_witness:
  "authenticated s0
   \<and> cmd_of ''xabor'' \<notin> set proto_cmds \<and> contains (cmd_of ''xabor'') ''ABOR''
   \<and> dispatch host0 s0 ''xabor'' = Call ''ABOR'' []
   \<and> cmd_of ''stats'' \<notin> set proto_cmds \<and> \<not> contains (cmd_of ''stats'') ''ABOR''
   \<and> contains (cmd_of ''stats'') ''STAT''
   \<and> dispatch host0 s0 ''stats'' = Call ''STAT'' []
   \<and> cmd_of ''site help'' \<notin> set proto_cmds \<and> \<not> contains (cmd_of ''site help'') ''ABOR''
   \<and> \<not> contains (cmd_of ''site help'') ''STAT''
   \<and> dispatch host0 s0 ''site help'' = Not_understood ''site help''"
proof -
  have a: "authenticated s0"
    by (simp add: s0_def)
  have c: "cmd_of ''xabor'' = ''XABOR''" "cmd_of ''stats'' = ''STATS''"
    "cmd_of ''site help'' = ''SITE''"
    unfolding cmd_of_def by code_simp+
  have 1: "cmd_of ''xabor'' \<notin> set proto_cmds \<and> contains (cmd_of ''xabor'') ''ABOR''"
    unfolding c by (simp add: proto_cmds_def startswith_def)
  have 2: "cmd_of ''stats'' \<notin> set proto_cmds \<and> \<not> contains (cmd_of ''stats'') ''ABOR''
      \<and> contains (cmd_of ''stats'') ''STAT''"
    unfolding c by (simp add: proto_cmds_def startswith_def)
  have 3: "cmd_of ''site help'' \<notin> set proto_cmds \<and> \<not> contains (cmd_of ''site help'') ''ABOR''
      \<and> \<not> contains (cmd_of ''site help'') ''STAT''"
    unfolding c by (simp add: proto_cmds_def startswith_def)
  show ?thesis
    using a 1 2 3
      C10_special_semantics [OF a, of "''xabor''" host0]
      C10_special_semantics [OF a, of "''stats''" host0]
      C10_special_semantics [OF a, of "''site help''" host0]
    by blast
qed

text \<open>
  A \<open>USER\<close> line reaches its handler in every state of the session, provided it has an
  argument; without one the dispatcher answers that the command needs an argument.
\<close>

lemma dispatch_USER:
  "cmd_of line = ''USER'' \<Longrightarrow>
   dispatch h s line = (if arg_of line = [] then Missing_arg else Call ''USER'' (arg_of line))"
  by (simp add: dispatch_def Let_def arg_cmds_def unarg_cmds_def unauth_cmds_def
      proto_cmds_def path_cmds_def)

end
